theory Spec2Isabelle
  imports Complex_Main "HOL-Library.Code_Target_Nat"
begin

section \<open>JavaScript numbers\<close>

text \<open>
  The program computes with JavaScript numbers. A finite number is modelled by the real
  number it denotes, and arithmetic on finite numbers is exact: rounding to 53 bits,
  overflow, underflow and the sign of zero are outside the model. The three non-finite
  values and their arithmetic are part of the model, because the guards of the code
  (\<open>isFinite\<close>, \<open>|| 0\<close>, \<open>=== 0\<close>, \<open>> 0\<close>) and its unguarded divisions depend
  on them.
\<close>

datatype jsnum = Fin real | PInf | NInf | NaN

fun isFinite :: "jsnum \<Rightarrow> bool" where
  "isFinite (Fin _) = True"
| "isFinite _ = False"

fun js_neg :: "jsnum \<Rightarrow> jsnum" where
  "js_neg (Fin a) = Fin (- a)"
| "js_neg PInf = NInf"
| "js_neg NInf = PInf"
| "js_neg NaN = NaN"

fun js_add :: "jsnum \<Rightarrow> jsnum \<Rightarrow> jsnum" where
  "js_add (Fin a) (Fin b) = Fin (a + b)"
| "js_add NaN _ = NaN"
| "js_add _ NaN = NaN"
| "js_add PInf NInf = NaN"
| "js_add NInf PInf = NaN"
| "js_add PInf _ = PInf"
| "js_add _ PInf = PInf"
| "js_add NInf _ = NInf"
| "js_add _ NInf = NInf"

definition js_sub :: "jsnum \<Rightarrow> jsnum \<Rightarrow> jsnum" where
  "js_sub x y = js_add x (js_neg y)"

text \<open>The sign of a number that is not NaN: the infinities count as positive and negative.\<close>

fun js_sign :: "jsnum \<Rightarrow> int" where
  "js_sign (Fin a) = (if a < 0 then - 1 else if a = 0 then 0 else 1)"
| "js_sign PInf = 1"
| "js_sign NInf = - 1"
| "js_sign NaN = 0"

definition signed_inf :: "int \<Rightarrow> jsnum" where
  "signed_inf s = (if s < 0 then NInf else PInf)"

fun js_mul :: "jsnum \<Rightarrow> jsnum \<Rightarrow> jsnum" where
  "js_mul (Fin a) (Fin b) = Fin (a * b)"
| "js_mul NaN _ = NaN"
| "js_mul _ NaN = NaN"
| "js_mul x y =
     (if js_sign x = 0 \<or> js_sign y = 0 then NaN else signed_inf (js_sign x * js_sign y))"

fun js_div :: "jsnum \<Rightarrow> jsnum \<Rightarrow> jsnum" where
  "js_div NaN _ = NaN"
| "js_div _ NaN = NaN"
| "js_div (Fin a) (Fin b) =
     (if b = 0 then (if a = 0 then NaN else signed_inf (js_sign (Fin a))) else Fin (a / b))"
| "js_div (Fin a) _ = Fin 0"
| "js_div x (Fin b) = signed_inf (js_sign x * (if b < 0 then - 1 else 1))"
| "js_div _ _ = NaN"

fun js_abs :: "jsnum \<Rightarrow> jsnum" where
  "js_abs (Fin a) = Fin \<bar>a\<bar>"
| "js_abs PInf = PInf"
| "js_abs NInf = PInf"
| "js_abs NaN = NaN"

text \<open>Comparison: every comparison with NaN is false.\<close>

fun js_lt :: "jsnum \<Rightarrow> jsnum \<Rightarrow> bool" where
  "js_lt NaN _ = False"
| "js_lt _ NaN = False"
| "js_lt (Fin a) (Fin b) = (a < b)"
| "js_lt PInf _ = False"
| "js_lt _ NInf = False"
| "js_lt _ PInf = True"
| "js_lt NInf _ = True"

definition js_gt :: "jsnum \<Rightarrow> jsnum \<Rightarrow> bool" where
  "js_gt x y = js_lt y x"

fun js_eq :: "jsnum \<Rightarrow> jsnum \<Rightarrow> bool" where
  "js_eq NaN _ = False"
| "js_eq _ NaN = False"
| "js_eq x y = (x = y)"

definition js_le :: "jsnum \<Rightarrow> jsnum \<Rightarrow> bool" where
  "js_le x y = (js_lt x y \<or> js_eq x y)"

definition js_ge :: "jsnum \<Rightarrow> jsnum \<Rightarrow> bool" where
  "js_ge x y = js_le y x"

text \<open>\<open>Math.max\<close> and \<open>Math.min\<close> of two numbers: NaN if either is NaN.\<close>

fun js_max :: "jsnum \<Rightarrow> jsnum \<Rightarrow> jsnum" where
  "js_max NaN _ = NaN"
| "js_max _ NaN = NaN"
| "js_max x y = (if js_lt x y then y else x)"

fun js_min :: "jsnum \<Rightarrow> jsnum \<Rightarrow> jsnum" where
  "js_min NaN _ = NaN"
| "js_min _ NaN = NaN"
| "js_min x y = (if js_lt y x then y else x)"

text \<open>
  \<open>x || d\<close> on a number that may be undefined (\<open>None\<close>): undefined, NaN and zero are
  falsy and give the default.
\<close>

fun truthy :: "jsnum \<Rightarrow> bool" where
  "truthy NaN = False"
| "truthy (Fin a) = (a \<noteq> 0)"
| "truthy _ = True"

fun or_default :: "jsnum option \<Rightarrow> jsnum \<Rightarrow> jsnum" where
  "or_default None d = d"
| "or_default (Some x) d = (if truthy x then x else d)"


section \<open>Strings\<close>

text \<open>
  A JavaScript string is a sequence of UTF-16 code units. \<open>str\<close> turns an ASCII literal
  into one.
\<close>

type_synonym jsstr = "nat list"

definition str :: "string \<Rightarrow> jsstr" where
  "str s = map of_char s"

section \<open>The event record (parser.ts, \<open>DataPoint\<close>)\<close>

text \<open>
  \<open>date\<close> holds the time value of the \<open>Date\<close> object (\<open>getTime()\<close>), which is NaN for
  an invalid date. An optional field is an \<open>option\<close>. JavaScript objects are open:
  Simulation.tsx adds \<open>simulatedBalance\<close> and \<open>simulatedProfit\<close> to a copy of the
  event, and statistics.ts reads them through \<open>(d as any)\<close>, so the record carries them
  as optional fields.
\<close>

record DataPoint =
  time :: jsstr
  balance :: jsnum
  profit :: jsnum
  volume :: jsnum
  date :: jsnum
  type :: "jsstr option"
  swap :: "jsnum option"
  commission :: "jsnum option"
  rawProfit :: "jsnum option"
  simulatedBalance :: "jsnum option"
  simulatedProfit :: "jsnum option"

section \<open>Resimulation (Simulation.tsx)\<close>

text \<open>\<open>const currentLotSize = storedLotSize || 0.1\<close>\<close>

definition currentLotSize :: "jsnum \<Rightarrow> jsnum" where
  "currentLotSize storedLotSize = or_default (Some storedLotSize) (Fin (1 / 10))"

text \<open>The body of the \<open>data.map\<close> callback up to the line \<open>currentBalance += simulatedProfit\<close>.\<close>

definition simulatedProfit_of :: "jsnum \<Rightarrow> DataPoint \<Rightarrow> jsnum" where
  "simulatedProfit_of lot deal =
     (if js_gt (volume deal) (Fin 0) then
        (let originalRawProfit = or_default (rawProfit deal) (Fin 0);
             originalCommission = or_default (commission deal) (Fin 0);
             originalSwap = or_default (swap deal) (Fin 0);
             ratio = js_div lot (volume deal);
             simRawProfit = js_mul originalRawProfit ratio;
             simCommission = js_mul originalCommission ratio;
             simSwap = originalSwap
         in js_add (js_add simRawProfit simSwap) simCommission)
      else profit deal)"

text \<open>
  \<open>data.map(deal => ...)\<close> with the running \<open>currentBalance\<close> of the enclosing scope
  passed along.
\<close>

fun simData :: "jsnum \<Rightarrow> jsnum \<Rightarrow> DataPoint list \<Rightarrow> DataPoint list" where
  "simData lot currentBalance [] = []"
| "simData lot currentBalance (deal # rest) =
     (let sp = simulatedProfit_of lot deal;
          cb = js_add currentBalance sp
      in deal\<lparr>simulatedBalance := Some cb, simulatedProfit := Some sp\<rparr> # simData lot cb rest)"

text \<open>The memo \<open>{ isFixedLot, originalLotSize }\<close>.\<close>

definition fixedLotInfo :: "DataPoint list \<Rightarrow> bool \<times> jsnum" where
  "fixedLotInfo data =
     (if data = [] then (False, Fin 0)
      else (let trades = filter (\<lambda>d. js_gt (volume d) (Fin 0)) data in
        (case trades of
           [] \<Rightarrow> (False, Fin 0)
         | t # _ \<Rightarrow> (let firstVol = volume t in
             (list_all (\<lambda>d. js_eq (volume d) firstVol) trades, firstVol)))))"

text \<open>
  The \<open>simulatedData\<close> of the second memo: empty when there is no data or the report is
  not fixed-lot, else \<open>simData\<close> started at the initial deposit.
\<close>

definition simulatedData_memo :: "jsnum \<Rightarrow> jsnum \<Rightarrow> DataPoint list \<Rightarrow> DataPoint list" where
  "simulatedData_memo storedLotSize initialDeposit data =
     (if data = [] \<or> \<not> fst (fixedLotInfo data) then []
      else simData (currentLotSize storedLotSize) initialDeposit data)"

section \<open>Formatting numbers\<close>

text \<open>The decimal digits of a natural number, as \<open>Number::toString\<close> writes an integer.\<close>

fun digits :: "nat \<Rightarrow> jsstr" where
  "digits n = (if n < 10 then [48 + n] else digits (n div 10) @ [48 + n mod 10])"

declare digits.simps [simp del]

text \<open>
  \<open>Number.prototype.toFixed\<close> (ECMAScript 21.1.3.3) with \<open>f\<close> fraction digits. A
  non-finite number is written by name. Otherwise the sign is split off, and a magnitude
  below \<open>10^21\<close> is written as the integer \<open>n\<close> nearest to \<open>x * 10^f\<close> (the larger one
  on a tie) with a point before its last \<open>f\<close> digits, padded with zeros to \<open>f + 1\<close>
  digits. A magnitude of at least \<open>10^21\<close> is written by \<open>Number::toString\<close> in
  exponent notation, which depends on the binary representation of the number; that
  function is the parameter \<open>big\<close>.
\<close>

definition toFixed :: "(real \<Rightarrow> jsstr) \<Rightarrow> nat \<Rightarrow> jsnum \<Rightarrow> jsstr" where
  "toFixed big f x =
     (case x of
        NaN \<Rightarrow> str ''NaN''
      | PInf \<Rightarrow> str ''Infinity''
      | NInf \<Rightarrow> str ''-Infinity''
      | Fin a \<Rightarrow>
          (let s = (if a < 0 then str ''-'' else []);
               a' = (if a < 0 then - a else a);
               m = (if a' \<ge> 10 ^ 21 then big a'
                    else (let n = nat \<lfloor>a' * 10 ^ f + 1 / 2\<rfloor>;
                              m0 = digits n
                          in if f \<noteq> 0 then
                               (let m1 = (if length m0 \<le> f
                                          then replicate (f + 1 - length m0) 48 @ m0 else m0);
                                    k = length m1
                                in take (k - f) m1 @ str ''.'' @ drop (k - f) m1)
                             else m0))
           in s @ m))"

section \<open>The report summary (parser.ts, \<open>ReportMeta\<close>)\<close>

text \<open>
  The fields \<open>maxConsecWins$\<close> and \<open>maxConsecLosses$\<close> are written with \<open>Dollar\<close>. A
  field that is absent or undefined is \<open>None\<close>.
\<close>

record ReportMeta =
  totalNetProfit :: "jsstr option"
  grossProfit :: "jsstr option"
  grossLoss :: "jsstr option"
  profitFactor :: "jsstr option"
  sharpeRatio :: "jsstr option"
  balanceDDMax :: "jsstr option"
  equityDDMax :: "jsstr option"
  balanceDDRel :: "jsstr option"
  equityDDRel :: "jsstr option"
  totalTrades :: jsnum
  shortTrades :: "jsstr option"
  longTrades :: "jsstr option"
  profitTrades :: "jsstr option"
  lossTrades :: "jsstr option"
  largestProfit :: "jsstr option"
  largestLoss :: "jsstr option"
  avgProfit :: "jsstr option"
  avgLoss :: "jsstr option"
  maxConsecWinsDollar :: "jsstr option"
  maxConsecLossesDollar :: "jsstr option"
  maxConsecProfitCount :: "jsstr option"
  maxConsecLossCount :: "jsstr option"
  avgConsecWins :: "jsstr option"
  avgConsecLosses :: "jsstr option"
  fixedLotSize :: "jsnum option"
  period :: "jsstr option"

text \<open>The object \<open>{ totalTrades: n }\<close>: every other field absent.\<close>

definition only_totalTrades :: "jsnum \<Rightarrow> ReportMeta" where
  "only_totalTrades n =
     \<lparr>totalNetProfit = None, grossProfit = None, grossLoss = None, profitFactor = None,
      sharpeRatio = None, balanceDDMax = None, equityDDMax = None, balanceDDRel = None,
      equityDDRel = None, totalTrades = n, shortTrades = None, longTrades = None,
      profitTrades = None, lossTrades = None, largestProfit = None, largestLoss = None,
      avgProfit = None, avgLoss = None, maxConsecWinsDollar = None,
      maxConsecLossesDollar = None, maxConsecProfitCount = None, maxConsecLossCount = None,
      avgConsecWins = None, avgConsecLosses = None, fixedLotSize = None, period = None\<rparr>"

section \<open>The statistics engine (statistics.ts)\<close>

text \<open>
  The local variables that the \<open>forEach\<close> of \<open>calculateStats\<close> updates. The two running
  sums whose names are also fields of the summary carry the prefix \<open>run_\<close>; the counters
  are natural numbers.
\<close>

record stats_state =
  run_grossProfit :: jsnum
  run_grossLoss :: jsnum
  wins :: nat
  losses :: nat
  maxProfit :: jsnum
  maxLoss :: jsnum
  totalProfitSum :: jsnum
  totalLossSum :: jsnum
  currentWins :: nat
  currentLosses :: nat
  maxConsecWinsCount :: nat
  maxConsecLossesCount :: nat
  run_maxConsecWinsDollar :: jsnum
  run_maxConsecLossesDollar :: jsnum
  currentWinDollar :: jsnum
  currentLossDollar :: jsnum
  peakBalance :: jsnum
  maxDDVal :: jsnum
  maxDDRel :: jsnum
  runningBalance :: jsnum

definition init_state :: "jsnum \<Rightarrow> stats_state" where
  "init_state initialDeposit =
     \<lparr>run_grossProfit = Fin 0, run_grossLoss = Fin 0, wins = 0, losses = 0,
      maxProfit = Fin 0, maxLoss = Fin 0, totalProfitSum = Fin 0, totalLossSum = Fin 0,
      currentWins = 0, currentLosses = 0, maxConsecWinsCount = 0, maxConsecLossesCount = 0,
      run_maxConsecWinsDollar = Fin 0, run_maxConsecLossesDollar = Fin 0,
      currentWinDollar = Fin 0, currentLossDollar = Fin 0,
      peakBalance = initialDeposit, maxDDVal = Fin 0, maxDDRel = Fin 0,
      runningBalance = initialDeposit\<rparr>"

text \<open>\<open>(d as any).simulatedProfit ?? d.profit\<close> and \<open>(d as any).simulatedBalance ?? d.balance\<close>\<close>

definition profit_read :: "DataPoint \<Rightarrow> jsnum" where
  "profit_read d = (case simulatedProfit d of Some p \<Rightarrow> p | None \<Rightarrow> profit d)"

definition balance_read :: "DataPoint \<Rightarrow> jsnum" where
  "balance_read d = (case simulatedBalance d of Some b \<Rightarrow> b | None \<Rightarrow> balance d)"

text \<open>The win and loss accounting of one trade (the block under \<open>if (d.volume > 0)\<close>).\<close>

definition trade_step :: "stats_state \<Rightarrow> jsnum \<Rightarrow> stats_state" where
  "trade_step s p =
     (let s1 =
        (if js_ge p (Fin 0) then
           s\<lparr>run_grossProfit := js_add (run_grossProfit s) p,
             wins := wins s + 1,
             maxProfit := js_max (maxProfit s) p,
             totalProfitSum := js_add (totalProfitSum s) p,
             currentWins := currentWins s + 1,
             currentWinDollar := js_add (currentWinDollar s) p,
             currentLosses := 0,
             currentLossDollar := Fin 0\<rparr>
         else
           s\<lparr>run_grossLoss := js_add (run_grossLoss s) (js_abs p),
             losses := losses s + 1,
             maxLoss := js_min (maxLoss s) p,
             totalLossSum := js_add (totalLossSum s) p,
             currentLosses := currentLosses s + 1,
             currentLossDollar := js_add (currentLossDollar s) p,
             currentWins := 0,
             currentWinDollar := Fin 0\<rparr>)
      in s1\<lparr>maxConsecWinsCount := max (maxConsecWinsCount s1) (currentWins s1),
            maxConsecLossesCount := max (maxConsecLossesCount s1) (currentLosses s1),
            run_maxConsecWinsDollar := js_max (run_maxConsecWinsDollar s1) (currentWinDollar s1),
            run_maxConsecLossesDollar :=
              js_min (run_maxConsecLossesDollar s1) (currentLossDollar s1)\<rparr>)"

text \<open>The drawdown block, run on every event.\<close>

definition drawdown_step :: "stats_state \<Rightarrow> jsnum \<Rightarrow> stats_state" where
  "drawdown_step s b =
     (if js_gt b (peakBalance s) then s\<lparr>peakBalance := b\<rparr>
      else
        (let ddVal = js_sub (peakBalance s) b;
             ddRel = js_mul (js_div ddVal (peakBalance s)) (Fin 100)
         in s\<lparr>maxDDVal := js_max (maxDDVal s) ddVal,
              maxDDRel := js_max (maxDDRel s) ddRel\<rparr>))"

text \<open>The body of \<open>simulatedData.forEach\<close>.\<close>

definition stats_step :: "stats_state \<Rightarrow> DataPoint \<Rightarrow> stats_state" where
  "stats_step s d =
     (let p = profit_read d;
          b = balance_read d;
          s1 = (if js_gt (volume d) (Fin 0) then trade_step s p else s);
          s2 = drawdown_step s1 b
      in s2\<lparr>runningBalance := b\<rparr>)"

definition stats_pass :: "DataPoint list \<Rightarrow> jsnum \<Rightarrow> stats_state" where
  "stats_pass simulatedData initialDeposit =
     foldl stats_step (init_state initialDeposit) simulatedData"

text \<open>\<open>const profitFactor = grossLoss === 0 ? grossProfit : grossProfit / grossLoss\<close>\<close>

definition profitFactor_of :: "stats_state \<Rightarrow> jsnum" where
  "profitFactor_of s =
     (if js_eq (run_grossLoss s) (Fin 0) then run_grossProfit s
      else js_div (run_grossProfit s) (run_grossLoss s))"

definition calculateStats :: "(real \<Rightarrow> jsstr) \<Rightarrow> DataPoint list \<Rightarrow> jsnum \<Rightarrow> ReportMeta" where
  "calculateStats big simulatedData initialDeposit =
     (if simulatedData = [] then only_totalTrades (Fin 0)
      else
        (let trades = filter (\<lambda>d. js_gt (volume d) (Fin 0)) simulatedData;
             s = stats_pass simulatedData initialDeposit;
             totalTrades' = Fin (real (length trades));
             netProfit = js_sub (run_grossProfit s) (run_grossLoss s);
             profitFactor' = profitFactor_of s;
             avgProfit' = (if wins s > 0 then js_div (totalProfitSum s) (Fin (real (wins s)))
                          else Fin 0);
             avgLoss' = (if losses s > 0 then js_div (totalLossSum s) (Fin (real (losses s)))
                        else Fin 0)
         in \<lparr>totalNetProfit = Some (toFixed big 2 netProfit),
             grossProfit = Some (toFixed big 2 (run_grossProfit s)),
             grossLoss = Some (toFixed big 2 (js_neg (run_grossLoss s))),
             profitFactor = Some (toFixed big 2 profitFactor'),
             sharpeRatio = Some (str ''0.00''),
             balanceDDMax = Some (toFixed big 2 (maxDDVal s) @ str '' ('' @
               toFixed big 2 (js_mul (js_div (maxDDVal s) (peakBalance s)) (Fin 100)) @
               str ''%)''),
             equityDDMax = Some (str ''0.00 (0.00%)''),
             balanceDDRel = Some (toFixed big 2 (maxDDRel s) @ str ''% ('' @
               toFixed big 2 (maxDDVal s) @ str '')''),
             equityDDRel = Some (str ''0.00% (0.00)''),
             totalTrades = totalTrades',
             shortTrades = Some (str ''0 (0%)''),
             longTrades = Some (str ''0 (0%)''),
             profitTrades = Some (digits (wins s) @ str '' ('' @
               toFixed big 2 (js_mul (js_div (Fin (real (wins s))) totalTrades') (Fin 100)) @
               str ''%)''),
             lossTrades = Some (digits (losses s) @ str '' ('' @
               toFixed big 2 (js_mul (js_div (Fin (real (losses s))) totalTrades') (Fin 100)) @
               str ''%)''),
             largestProfit = Some (toFixed big 2 (maxProfit s)),
             largestLoss = Some (toFixed big 2 (maxLoss s)),
             avgProfit = Some (toFixed big 2 avgProfit'),
             avgLoss = Some (toFixed big 2 avgLoss'),
             maxConsecWinsDollar = Some (toFixed big 2 (run_maxConsecWinsDollar s)),
             maxConsecLossesDollar = Some (toFixed big 2 (run_maxConsecLossesDollar s)),
             maxConsecProfitCount = Some (digits (maxConsecWinsCount s)),
             maxConsecLossCount = Some (digits (maxConsecLossesCount s)),
             avgConsecWins = Some (str ''0''),
             avgConsecLosses = Some (str ''0''),
             fixedLotSize = None,
             period = Some (str ''Simulated'')\<rparr>))"

section \<open>String operations\<close>

text \<open>
  The code points that \<open>trim()\<close> removes and that \<open>\s\<close> matches in a regular
  expression: the WhiteSpace and LineTerminator code points of ECMAScript.
\<close>

definition is_space :: "nat \<Rightarrow> bool" where
  "is_space c \<longleftrightarrow>
     c \<in> {0x09, 0x0A, 0x0B, 0x0C, 0x0D, 0x20, 0xA0, 0x1680, 0x2028, 0x2029, 0x202F, 0x205F,
          0x3000, 0xFEFF} \<or> (0x2000 \<le> c \<and> c \<le> 0x200A)"

definition trim :: "jsstr \<Rightarrow> jsstr" where
  "trim s = rev (dropWhile is_space (rev (dropWhile is_space s)))"

text \<open>\<open>.replace(/\s/g, '')\<close>\<close>

definition strip_spaces :: "jsstr \<Rightarrow> jsstr" where
  "strip_spaces s = filter (\<lambda>c. \<not> is_space c) s"

text \<open>\<open>.replace(/[\u2013\u2014\u2212]/g, '-')\<close>\<close>

definition normalize_minus :: "jsstr \<Rightarrow> jsstr" where
  "normalize_minus s = map (\<lambda>c. if c \<in> {0x2013, 0x2014, 0x2212} then 0x2D else c) s"

fun startsWith :: "jsstr \<Rightarrow> jsstr \<Rightarrow> bool" where
  "startsWith s [] = True"
| "startsWith [] (p # ps) = False"
| "startsWith (c # s) (p # ps) = (c = p \<and> startsWith s ps)"

fun js_includes :: "jsstr \<Rightarrow> jsstr \<Rightarrow> bool" where
  "js_includes [] sub = (sub = [])"
| "js_includes (c # s) sub = (startsWith (c # s) sub \<or> js_includes s sub)"

text \<open>\<open>.replace(a, b)\<close> with one-character strings: only the first occurrence.\<close>

fun replace_first :: "nat \<Rightarrow> nat \<Rightarrow> jsstr \<Rightarrow> jsstr" where
  "replace_first a b [] = []"
| "replace_first a b (c # s) = (if c = a then b # s else c # replace_first a b s)"

text \<open>\<open>.replace(/a/g, b)\<close> with one-character strings, and with the empty replacement.\<close>

definition replace_all :: "nat \<Rightarrow> nat \<Rightarrow> jsstr \<Rightarrow> jsstr" where
  "replace_all a b s = map (\<lambda>c. if c = a then b else c) s"

definition remove_all :: "nat \<Rightarrow> jsstr \<Rightarrow> jsstr" where
  "remove_all a s = filter (\<lambda>c. c \<noteq> a) s"

definition is_digit :: "nat \<Rightarrow> bool" where
  "is_digit c \<longleftrightarrow> 0x30 \<le> c \<and> c \<le> 0x39"

text \<open>\<open>/^\d{4}\.\d{2}\.\d{2}/.test(s)\<close>\<close>

fun date_pattern :: "jsstr \<Rightarrow> bool" where
  "date_pattern (y1 # y2 # y3 # y4 # p # m1 # m2 # q # d1 # d2 # rest) =
     (is_digit y1 \<and> is_digit y2 \<and> is_digit y3 \<and> is_digit y4 \<and> p = 0x2E \<and>
      is_digit m1 \<and> is_digit m2 \<and> q = 0x2E \<and> is_digit d1 \<and> is_digit d2)"
| "date_pattern _ = False"

text \<open>\<open>s || d\<close> on a string that may be undefined: undefined and the empty string are falsy.\<close>

fun or_str :: "jsstr option \<Rightarrow> jsstr \<Rightarrow> jsstr" where
  "or_str None d = d"
| "or_str (Some []) d = d"
| "or_str (Some s) d = s"

section \<open>\<open>parseFloat\<close> and \<open>parseInt\<close>\<close>

text \<open>The value of a string of decimal digits, and of the digits after a decimal point.\<close>

definition digits_value :: "jsstr \<Rightarrow> nat" where
  "digits_value ds = foldl (\<lambda>n c. 10 * n + (c - 0x30)) 0 ds"

definition fraction_value :: "jsstr \<Rightarrow> real" where
  "fraction_value ds = real (digits_value ds) / 10 ^ length ds"

definition scale10 :: "real \<Rightarrow> int \<Rightarrow> real" where
  "scale10 x e = (if 0 \<le> e then x * 10 ^ nat e else x / 10 ^ nat (- e))"

text \<open>
  The exponent part of a decimal literal at the head of a string: \<open>e\<close> or \<open>E\<close>, an
  optional sign and at least one digit. Without such a part the exponent is 0.
\<close>

definition exponent_part :: "jsstr \<Rightarrow> int" where
  "exponent_part s =
     (case s of
        [] \<Rightarrow> 0
      | c # r \<Rightarrow>
          if c = 0x65 \<or> c = 0x45 then
            (case r of
               [] \<Rightarrow> 0
             | sg # r' \<Rightarrow>
                 if sg = 0x2D then
                   (if takeWhile is_digit r' = [] then 0
                    else - int (digits_value (takeWhile is_digit r')))
                 else if sg = 0x2B then int (digits_value (takeWhile is_digit r'))
                 else int (digits_value (takeWhile is_digit r)))
          else 0)"

text \<open>
  The unsigned part: \<open>Infinity\<close>, or the longest prefix \<open>digits [. digits] [exponent]\<close>
  or \<open>. digits [exponent]\<close>; NaN when there is no digit before or after the point.
\<close>

definition unsigned_literal :: "jsstr \<Rightarrow> jsnum" where
  "unsigned_literal s =
     (if startsWith s (str ''Infinity'') then PInf
      else
        (let ip = takeWhile is_digit s;
             r1 = dropWhile is_digit s;
             has_point = (r1 \<noteq> [] \<and> hd r1 = 0x2E);
             fp = (if has_point then takeWhile is_digit (tl r1) else []);
             r2 = (if has_point then dropWhile is_digit (tl r1) else r1)
         in if ip = [] \<and> fp = [] then NaN
            else Fin (scale10 (real (digits_value ip) + fraction_value fp) (exponent_part r2))))"

text \<open>
  \<open>parseFloat\<close>: leading white space is skipped, then an optional sign, then the unsigned
  part. The value of the literal is taken exactly.
\<close>

definition parseFloat :: "jsstr \<Rightarrow> jsnum" where
  "parseFloat s =
     (let t = dropWhile is_space s in
      case t of
        [] \<Rightarrow> NaN
      | c # r \<Rightarrow>
          if c = 0x2D then js_neg (unsigned_literal r)
          else if c = 0x2B then unsigned_literal r
          else unsigned_literal t)"

definition is_hex_digit :: "nat \<Rightarrow> bool" where
  "is_hex_digit c \<longleftrightarrow> is_digit c \<or> (0x41 \<le> c \<and> c \<le> 0x46) \<or> (0x61 \<le> c \<and> c \<le> 0x66)"

definition hex_digit_value :: "nat \<Rightarrow> nat" where
  "hex_digit_value c =
     (if is_digit c then c - 0x30 else if c \<le> 0x46 then c - 0x41 + 10 else c - 0x61 + 10)"

definition hex_value :: "jsstr \<Rightarrow> nat" where
  "hex_value ds = foldl (\<lambda>n c. 16 * n + hex_digit_value c) 0 ds"

text \<open>
  \<open>parseInt\<close> without radix: leading white space is skipped, then an optional sign; after
  \<open>0x\<close> or \<open>0X\<close> the longest prefix of hexadecimal digits is read, else the longest
  prefix of decimal digits; NaN when there is no digit.
\<close>

definition unsigned_int :: "jsstr \<Rightarrow> jsnum" where
  "unsigned_int s =
     (if startsWith s (str ''0x'') \<or> startsWith s (str ''0X'') then
        (let ds = takeWhile is_hex_digit (drop 2 s) in
         if ds = [] then NaN else Fin (real (hex_value ds)))
      else
        (let ds = takeWhile is_digit s in
         if ds = [] then NaN else Fin (real (digits_value ds))))"

definition parseInt :: "jsstr \<Rightarrow> jsnum" where
  "parseInt s =
     (let t = dropWhile is_space s in
      case t of
        [] \<Rightarrow> NaN
      | c # r \<Rightarrow>
          if c = 0x2D then js_neg (unsigned_int r)
          else if c = 0x2B then unsigned_int r
          else unsigned_int t)"

section \<open>The numeric-cell routine (parser.ts, \<open>cleanVal\<close>)\<close>

definition cleanVal :: "jsstr option \<Rightarrow> jsnum" where
  "cleanVal txt =
     (case txt of
        None \<Rightarrow> Fin 0
      | Some t \<Rightarrow>
          if t = [] then Fin 0
          else
            (let clean = normalize_minus (strip_spaces (trim t));
                 clean' = (if js_includes clean (str '','') \<and> \<not> js_includes clean (str ''.'')
                           then replace_first 0x2C 0x2E clean
                           else remove_all 0x2C clean);
                 val = parseFloat clean'
             in if isFinite val then val else Fin 0))"

section \<open>The document\<close>

text \<open>
  \<open>DOMParser.parseFromString(html, 'text/html')\<close> is the HTML parser of the browser: it
  accepts every string and returns a document tree. The model starts from that tree: a
  node is a text node or an element with its lower-case tag name and its children (comment
  nodes carry no text content and match no selector, so they are left out).
\<close>

datatype node = Text jsstr | Element jsstr "node list"

text \<open>The descendants of a node in document order.\<close>

fun descendants :: "node \<Rightarrow> node list" where
  "descendants (Text t) = []"
| "descendants (Element tag children) = concat (map (\<lambda>c. c # descendants c) children)"

fun textContent :: "node \<Rightarrow> jsstr" where
  "textContent (Text t) = t"
| "textContent (Element tag children) = concat (map textContent children)"

fun has_tag :: "jsstr list \<Rightarrow> node \<Rightarrow> bool" where
  "has_tag tags (Text t) = False"
| "has_tag tags (Element tag children) = (tag \<in> set tags)"

text \<open>\<open>Array.from(n.querySelectorAll(sel))\<close> for a selector that is a list of tag names.\<close>

definition querySelectorAll :: "jsstr list \<Rightarrow> node \<Rightarrow> node list" where
  "querySelectorAll tags n = filter (has_tag tags) (descendants n)"

text \<open>\<open>Array.prototype.findIndex\<close>: \<open>None\<close> stands for -1.\<close>

fun findIndex :: "('a \<Rightarrow> bool) \<Rightarrow> 'a list \<Rightarrow> nat option" where
  "findIndex P [] = None"
| "findIndex P (x # xs) =
     (if P x then Some 0 else (case findIndex P xs of None \<Rightarrow> None | Some i \<Rightarrow> Some (Suc i)))"

section \<open>The report parser (parser.ts, \<open>processData\<close>)\<close>

text \<open>
  Two functions of the platform are parameters of the model: \<open>toLowerCase\<close>, which
  follows the Unicode case tables, and \<open>dateTime s\<close>, the time value of \<open>new Date(s)\<close>
  (NaN for an invalid date), whose parsing of strings outside the ISO format is left to
  the implementation by ECMAScript.
\<close>

record builtins =
  toLowerCase :: "jsstr \<Rightarrow> jsstr"
  dateTime :: "jsstr \<Rightarrow> jsnum"

datatype js_error = TypeError

record ParsedResult =
  data :: "DataPoint list"
  initialDeposit :: jsnum
  reportMeta :: ReportMeta

text \<open>
  \<open>getVal\<close>: the index of the first cell whose trimmed text starts with the label; the
  trimmed text of the next cell, which is undefined (\<open>None\<close>) when the labelled cell is
  the last one; the string \<open>0\<close> when no cell is labelled.
\<close>

definition getVal :: "node list \<Rightarrow> jsstr \<Rightarrow> jsstr option" where
  "getVal cells label =
     (case findIndex (\<lambda>c. startsWith (trim (textContent c)) label) cells of
        None \<Rightarrow> Some (str ''0'')
      | Some idx \<Rightarrow>
          if idx + 1 < length cells then Some (trim (textContent (cells ! (idx + 1))))
          else None)"

definition scrape_meta :: "node list \<Rightarrow> ReportMeta" where
  "scrape_meta cells =
     \<lparr>totalNetProfit = getVal cells (str ''Total Net Profit:''),
      grossProfit = getVal cells (str ''Gross Profit:''),
      grossLoss = getVal cells (str ''Gross Loss:''),
      profitFactor = getVal cells (str ''Profit Factor:''),
      sharpeRatio = getVal cells (str ''Sharpe Ratio:''),
      balanceDDMax = getVal cells (str ''Balance Drawdown Maximal:''),
      equityDDMax = getVal cells (str ''Equity Drawdown Maximal:''),
      balanceDDRel = getVal cells (str ''Balance Drawdown Relative:''),
      equityDDRel = getVal cells (str ''Equity Drawdown Relative:''),
      totalTrades =
        or_default (Some (parseInt (or_str (getVal cells (str ''Total Trades:'')) (str ''0''))))
          (Fin 0),
      shortTrades = getVal cells (str ''Short Trades (won %):''),
      longTrades = getVal cells (str ''Long Trades (won %):''),
      profitTrades = getVal cells (str ''Profit Trades (% of total):''),
      lossTrades = getVal cells (str ''Loss Trades (% of total):''),
      largestProfit = getVal cells (str ''Largest profit trade:''),
      largestLoss = getVal cells (str ''Largest loss trade:''),
      avgProfit = getVal cells (str ''Average profit trade:''),
      avgLoss = getVal cells (str ''Average loss trade:''),
      maxConsecWinsDollar = getVal cells (str ''Maximum consecutive wins ($):''),
      maxConsecLossesDollar = getVal cells (str ''Maximum consecutive losses ($):''),
      maxConsecProfitCount = getVal cells (str ''Maximal consecutive profit (count):''),
      maxConsecLossCount = getVal cells (str ''Maximal consecutive loss (count):''),
      avgConsecWins = getVal cells (str ''Average consecutive wins:''),
      avgConsecLosses = getVal cells (str ''Average consecutive losses:''),
      fixedLotSize = None,
      period = getVal cells (str ''Period:'')\<rparr>"

text \<open>
  The initial deposit. \<open>depositIdx + 1\<close> is 0 when no cell contains the label, so the
  first cell is read then.
\<close>

definition scrape_deposit :: "node list \<Rightarrow> jsnum" where
  "scrape_deposit cells =
     (let i = (case findIndex (\<lambda>td. js_includes (textContent td) (str ''Initial Deposit:'')) cells
               of None \<Rightarrow> 0 | Some depositIdx \<Rightarrow> depositIdx + 1);
          txt = (if i < length cells then Some (strip_spaces (textContent (cells ! i)))
                 else None)
      in or_default (Some (parseFloat (or_str txt (str ''0'')))) (Fin 0))"

text \<open>The column indices; \<open>None\<close> stands for the index -1 of an absent column.\<close>

record columns =
  volIdx :: nat
  profitIdx :: nat
  balIdx :: nat
  timeIdx :: nat
  typeIdx :: nat
  swapIdx :: "nat option"
  commIdx :: "nat option"

definition findIdx :: "jsstr list \<Rightarrow> jsstr list \<Rightarrow> nat option" where
  "findIdx hCells keywords =
     findIndex (\<lambda>h. list_ex (\<lambda>k. h = k \<or> js_includes h k) keywords) hCells"

definition is_header :: "builtins \<Rightarrow> node \<Rightarrow> bool" where
  "is_header E row =
     (let text = toLowerCase E (textContent row)
      in js_includes text (str ''time'') \<and> js_includes text (str ''profit''))"

definition detect_columns :: "builtins \<Rightarrow> node list \<Rightarrow> columns" where
  "detect_columns E allRows =
     (case find (is_header E) allRows of
        None \<Rightarrow>
          \<lparr>volIdx = 5, profitIdx = 10, balIdx = 11, timeIdx = 0, typeIdx = 2,
           swapIdx = None, commIdx = None\<rparr>
      | Some headerRow \<Rightarrow>
          (let hCells = map (\<lambda>c. toLowerCase E (trim (textContent c)))
                          (querySelectorAll [str ''th'', str ''td''] headerRow);
               v = findIdx hCells [str ''volume'', str ''size'', str ''lots'', str ''amount'',
                                   str ''qty''];
               p = findIdx hCells [str ''profit'', str ''gain''];
               b = findIdx hCells [str ''balance''];
               t = findIdx hCells [str ''time'', str ''date''];
               ty = findIdx hCells [str ''type'', str ''direction''];
               s = findIdx hCells [str ''swap''];
               cm = findIdx hCells [str ''commission'', str ''taxes'', str ''fee'']
           in \<lparr>volIdx = (case v of None \<Rightarrow> 5 | Some i \<Rightarrow> i),
               profitIdx = (case p of None \<Rightarrow> 10 | Some i \<Rightarrow> i),
               balIdx = (case b of None \<Rightarrow> 11 | Some i \<Rightarrow> i),
               timeIdx = (case t of None \<Rightarrow> 0 | Some i \<Rightarrow> i),
               typeIdx = (case ty of None \<Rightarrow> 2 | Some i \<Rightarrow> i),
               swapIdx = s, commIdx = cm\<rparr>))"

text \<open>
  \<open>c[i].textContent\<close> raises a TypeError when \<open>c[i]\<close> is undefined, that is when the
  row has no cell of index \<open>i\<close>.
\<close>

definition cell_text :: "node list \<Rightarrow> nat \<Rightarrow> js_error + jsstr" where
  "cell_text c i = (if i < length c then Inr (textContent (c ! i)) else Inl TypeError)"

text \<open>\<open>idx !== -1 ? cleanVal(c[idx].textContent) : 0\<close>\<close>

definition optional_cell :: "node list \<Rightarrow> nat option \<Rightarrow> js_error + jsnum" where
  "optional_cell c idx =
     (case idx of
        None \<Rightarrow> Inr (Fin 0)
      | Some i \<Rightarrow> (case cell_text c i of Inl e \<Rightarrow> Inl e | Inr t \<Rightarrow> Inr (cleanVal (Some t))))"

text \<open>
  The callback of \<open>allRows.forEach\<close> on one row: a TypeError, no event (\<open>None\<close>) or the
  event pushed to \<open>deals\<close>. The guard compares the number of cells with the volume, profit,
  balance and type indices only; the cells at the time, swap and commission indices are
  read without a check.
\<close>

definition row_event :: "builtins \<Rightarrow> columns \<Rightarrow> node \<Rightarrow> js_error + DataPoint option" where
  "row_event E cols row =
     (let c = querySelectorAll [str ''td''] row in
      if length c > max (max (max (volIdx cols) (profitIdx cols)) (balIdx cols)) (typeIdx cols)
      then
        (case cell_text c (timeIdx cols) of
           Inl e \<Rightarrow> Inl e
         | Inr timeText \<Rightarrow>
             (let timeStr = trim timeText in
              if timeStr \<noteq> [] \<and> date_pattern timeStr then
                (let volume' = cleanVal (Some (textContent (c ! volIdx cols)));
                     rawProfit' = cleanVal (Some (textContent (c ! profitIdx cols)));
                     balance' = cleanVal (Some (textContent (c ! balIdx cols)));
                     type' = toLowerCase E (trim (textContent (c ! typeIdx cols)))
                 in case optional_cell c (swapIdx cols) of
                      Inl e \<Rightarrow> Inl e
                    | Inr swap' \<Rightarrow>
                        (case optional_cell c (commIdx cols) of
                           Inl e \<Rightarrow> Inl e
                         | Inr commission' \<Rightarrow>
                             Inr (Some
                               \<lparr>time = timeStr, balance = balance',
                                profit = js_add (js_add rawProfit' swap') commission',
                                volume = volume',
                                date = dateTime E (replace_all 0x2E 0x2D timeStr),
                                type = Some type', swap = Some swap',
                                commission = Some commission', rawProfit = Some rawProfit',
                                simulatedBalance = None, simulatedProfit = None\<rparr>)))
              else Inr None))
      else Inr None)"

text \<open>\<open>allRows.forEach\<close>: the events of the rows in order, or the first error.\<close>

fun collect_deals :: "builtins \<Rightarrow> columns \<Rightarrow> node list \<Rightarrow> js_error + DataPoint list" where
  "collect_deals E cols [] = Inr []"
| "collect_deals E cols (row # rows) =
     (case row_event E cols row of
        Inl e \<Rightarrow> Inl e
      | Inr r \<Rightarrow>
          (case collect_deals E cols rows of
             Inl e \<Rightarrow> Inl e
           | Inr ds \<Rightarrow> Inr (case r of None \<Rightarrow> ds | Some d \<Rightarrow> d # ds)))"

text \<open>
  \<open>deals.sort((a, b) => a.date.getTime() - b.date.getTime())\<close>. The sort of ECMAScript is
  stable and reads a NaN from the comparator as 0; with a consistent comparator its result
  is determined, and it is the result of this insertion sort. When a date is NaN the
  comparator is not consistent and the order is left to the implementation; the model
  then gives one of the possible orders.
\<close>

fun insert_deal :: "DataPoint \<Rightarrow> DataPoint list \<Rightarrow> DataPoint list" where
  "insert_deal a [] = [a]"
| "insert_deal a (b # bs) =
     (if js_gt (js_sub (date a) (date b)) (Fin 0) then b # insert_deal a bs else a # b # bs)"

definition sort_deals :: "DataPoint list \<Rightarrow> DataPoint list" where
  "sort_deals deals = foldr insert_deal deals []"

text \<open>
  The fixed-lot check. \<open>deals\<close> has been sorted in place by then, so the first trade is
  the first one in time order.
\<close>

definition fixed_lot :: "DataPoint list \<Rightarrow> jsnum option" where
  "fixed_lot deals =
     (case filter (\<lambda>d. js_gt (volume d) (Fin 0)) deals of
        [] \<Rightarrow> None
      | t # rest \<Rightarrow>
          if list_all (\<lambda>d. js_eq (volume d) (volume t)) (t # rest) then Some (volume t)
          else None)"

text \<open>
  \<open>processData\<close> on the parsed document. The \<open>data.reduce\<close> between the sort and the
  fixed-lot check computes a sum that is not used, and is left out.
\<close>

definition processData :: "builtins \<Rightarrow> node \<Rightarrow> js_error + ParsedResult" where
  "processData E doc =
     (let cells = querySelectorAll [str ''td''] doc;
          meta = scrape_meta cells;
          deposit = scrape_deposit cells;
          allRows = querySelectorAll [str ''tr''] doc;
          cols = detect_columns E allRows
      in case collect_deals E cols allRows of
           Inl e \<Rightarrow> Inl e
         | Inr deals \<Rightarrow>
             (let data' = (if deals \<noteq> [] then sort_deals deals else [])
              in Inr \<lparr>data = data', initialDeposit = deposit,
                      reportMeta = (case fixed_lot data' of
                                      None \<Rightarrow> meta
                                    | Some firstVol \<Rightarrow> meta\<lparr>fixedLotSize := Some firstVol\<rparr>)\<rparr>))"

section \<open>Concrete platform functions for the examples\<close>

text \<open>
  On ASCII text \<open>toLowerCase\<close> maps \<open>A\<close>-\<open>Z\<close> to \<open>a\<close>-\<open>z\<close>. On a string in the
  date-only form \<open>YYYY-MM-DD\<close> of the ECMAScript date-time format, \<open>new Date(s)\<close> is
  midnight UTC of that day, and is invalid when the month is not in 01-12 or the day not
  in 01-31. \<open>ascii_lower\<close> and \<open>date_only\<close> are these two functions; the examples use
  them on such strings only (\<open>date_only\<close> answers NaN on every other string and on a day
  beyond the end of its month).
\<close>

definition ascii_lower :: "jsstr \<Rightarrow> jsstr" where
  "ascii_lower s = map (\<lambda>c. if 0x41 \<le> c \<and> c \<le> 0x5A then c + 0x20 else c) s"

definition days_from_civil :: "int \<Rightarrow> int \<Rightarrow> int \<Rightarrow> int" where
  "days_from_civil y m d =
     (let y' = (if m \<le> 2 then y - 1 else y);
          era = y' div 400;
          yoe = y' - era * 400;
          mp = (m + 9) mod 12;
          doy = (153 * mp + 2) div 5 + d - 1;
          doe = yoe * 365 + yoe div 4 - yoe div 100 + doy
      in era * 146097 + doe - 719468)"

definition days_in_month :: "int \<Rightarrow> int \<Rightarrow> int" where
  "days_in_month y m =
     (if m = 2 then (if y mod 4 = 0 \<and> (y mod 100 \<noteq> 0 \<or> y mod 400 = 0) then 29 else 28)
      else if m \<in> {4, 6, 9, 11} then 30 else 31)"

definition date_only :: "jsstr \<Rightarrow> jsnum" where
  "date_only s =
     (if length s = 10 \<and> list_all is_digit (take 4 s) \<and> s ! 4 = 0x2D \<and>
         list_all is_digit (take 2 (drop 5 s)) \<and> s ! 7 = 0x2D \<and>
         list_all is_digit (drop 8 s)
      then
        (let y = int (digits_value (take 4 s));
             m = int (digits_value (take 2 (drop 5 s)));
             d = int (digits_value (drop 8 s))
         in if 1 \<le> m \<and> m \<le> 12 \<and> 1 \<le> d \<and> d \<le> days_in_month y m
            then Fin (real_of_int (days_from_civil y m d * 86400000))
            else NaN)
      else NaN)"

text \<open>
  The examples format numbers below \<open>10^21\<close> only, so the rendering of larger numbers
  that \<open>toFixed\<close> takes as a parameter is never applied in them; they pass \<open>no_big\<close>.
\<close>

definition no_big :: "real \<Rightarrow> jsstr" where
  "no_big x = []"

definition platform :: builtins where
  "platform = \<lparr>toLowerCase = ascii_lower, dateTime = date_only\<rparr>"

section \<open>Sample inputs\<close>

text \<open>
  Events used to evaluate the definitions at concrete inputs: a trade of volume 0.1 with
  raw profit 100, swap -5 and no commission, and a balance operation of volume 0, as the
  parser builds them.
\<close>

definition trade_with_swap :: DataPoint where
  "trade_with_swap =
     \<lparr>time = str ''2024.01.02'', balance = Fin 10095, profit = Fin 95, volume = Fin (1 / 10),
      date = Fin 1704153600000, type = Some (str ''buy''), swap = Some (Fin (- 5)),
      commission = Some (Fin 0), rawProfit = Some (Fin 100),
      simulatedBalance = None, simulatedProfit = None\<rparr>"

definition balance_op :: DataPoint where
  "balance_op =
     \<lparr>time = str ''2024.01.01'', balance = Fin 10000, profit = Fin 10000, volume = Fin 0,
      date = Fin 1704067200000, type = Some (str ''balance''), swap = Some (Fin 0),
      commission = Some (Fin 0), rawProfit = Some (Fin 10000),
      simulatedBalance = None, simulatedProfit = None\<rparr>"

text \<open>
  \<open>plain_event\<close> builds an event without swap and commission, as the parser builds it from
  a row: time text, time value, volume, profit and balance. \<open>scenario_A\<close> is the ledger of
  three trades of volume 0.1 of the spec's scenario A, \<open>scenario_B\<close> the same trades
  resimulated at lot size 0.2 from the deposit 10000, \<open>winners_only\<close> two winning
  trades, and \<open>flat_trade\<close> a trade that leaves a balance of 0 unchanged.
\<close>

definition plain_event :: "jsstr \<Rightarrow> real \<Rightarrow> real \<Rightarrow> real \<Rightarrow> real \<Rightarrow> DataPoint" where
  "plain_event t ms v p b =
     \<lparr>time = t, balance = Fin b, profit = Fin p, volume = Fin v, date = Fin ms,
      type = Some (str ''buy''), swap = Some (Fin 0), commission = Some (Fin 0),
      rawProfit = Some (Fin p), simulatedBalance = None, simulatedProfit = None\<rparr>"

definition scenario_A :: "DataPoint list" where
  "scenario_A =
     [plain_event (str ''2024.01.02'') 1704153600000 (1 / 10) 100 10100,
      plain_event (str ''2024.01.03'') 1704240000000 (1 / 10) (- 50) 10050,
      plain_event (str ''2024.01.04'') 1704326400000 (1 / 10) 450 10500]"

definition scenario_B :: "DataPoint list" where
  "scenario_B = simData (Fin (2 / 10)) (Fin 10000) scenario_A"

definition winners_only :: "DataPoint list" where
  "winners_only =
     [plain_event (str ''2024.01.02'') 1704153600000 (1 / 10) 100 10100,
      plain_event (str ''2024.01.04'') 1704326400000 (1 / 10) 450 10550]"

definition flat_trade :: DataPoint where
  "flat_trade = plain_event (str ''2024.01.02'') 1704153600000 (1 / 10) 0 0"

text \<open>
  Documents, as the HTML parser builds them: \<open>html_doc\<close> wraps tables into
  \<open>html\<close>/\<open>head\<close>/\<open>body\<close>, \<open>table\<close> wraps rows into \<open>table\<close>/\<open>tbody\<close>, \<open>tr\<close>
  is a row of \<open>td\<close> cells with the given texts.
\<close>

definition td :: "string \<Rightarrow> node" where
  "td s = Element (str ''td'') [Text (str s)]"

definition tr :: "string list \<Rightarrow> node" where
  "tr texts = Element (str ''tr'') (map td texts)"

definition table :: "node list \<Rightarrow> node" where
  "table rows = Element (str ''table'') [Element (str ''tbody'') rows]"

definition html_doc :: "node list \<Rightarrow> node" where
  "html_doc tables =
     Element (str ''#document'')
       [Element (str ''html'') [Element (str ''head'') [], Element (str ''body'') tables]]"

text \<open>
  \<open>doc_scenario_A\<close>: the report of scenario A, rows out of time order.
  \<open>doc_mixed_lots\<close>: two trades of volumes 0.10 and 0.20.
  \<open>doc_no_swap_cell\<close>: the header names a swap column after the balance column, and a
  ledger row ends at the balance cell.
  \<open>doc_no_time_cell\<close>: the header names the time column last, and a row has one cell
  less than the header.
  \<open>doc_bad_date\<close>: a ledger row whose time text has month 13 and day 45.
\<close>

definition doc_scenario_A :: node where
  "doc_scenario_A = html_doc
     [table [tr [''Total Net Profit:'', ''500.00''], tr [''Initial Deposit:'', ''10000'']],
      table [tr [''Time'', ''Type'', ''Volume'', ''Profit'', ''Balance''],
             tr [''2024.01.03'', ''buy'', ''0.10'', ''-50.00'', ''10050.00''],
             tr [''2024.01.02'', ''buy'', ''0.10'', ''100.00'', ''10100.00''],
             tr [''2024.01.04'', ''buy'', ''0.10'', ''450.00'', ''10500.00'']]]"

definition doc_mixed_lots :: node where
  "doc_mixed_lots = html_doc
     [table [tr [''Time'', ''Type'', ''Volume'', ''Profit'', ''Balance''],
             tr [''2024.01.02'', ''buy'', ''0.10'', ''100.00'', ''10100.00''],
             tr [''2024.01.03'', ''buy'', ''0.20'', ''450.00'', ''10550.00'']]]"

definition doc_no_swap_cell :: node where
  "doc_no_swap_cell = html_doc
     [table [tr [''Time'', ''Type'', ''Volume'', ''Profit'', ''Balance'', ''Swap''],
             tr [''2024.01.02'', ''buy'', ''0.10'', ''100.00'', ''10100.00'']]]"

definition doc_no_time_cell :: node where
  "doc_no_time_cell = html_doc
     [table [tr [''Type'', ''Volume'', ''Profit'', ''Balance'', ''Time''],
             tr [''buy'', ''0.10'', ''100.00'', ''10100.00'']]]"

definition doc_bad_date :: node where
  "doc_bad_date = html_doc
     [table [tr [''Time'', ''Type'', ''Volume'', ''Profit'', ''Balance''],
             tr [''2024.13.45'', ''buy'', ''0.10'', ''100.00'', ''10100.00''],
             tr [''2024.01.01'', ''buy'', ''0.10'', ''450.00'', ''10550.00'']]]"


text \<open>
  \<open>mixed_lots\<close> and \<open>bad_date_deals\<close> are the events of the rows of \<open>doc_mixed_lots\<close> and
  \<open>doc_bad_date\<close>.
\<close>

definition mixed_lots :: "DataPoint list" where
  "mixed_lots =
     [plain_event (str ''2024.01.02'') 1704153600000 (1 / 10) 100 10100,
      plain_event (str ''2024.01.03'') 1704240000000 (2 / 10) 450 10550]"

definition bad_date_deals :: "DataPoint list" where
  "bad_date_deals =
     [(plain_event (str ''2024.13.45'') 0 (1 / 10) 100 10100)\<lparr>date := NaN\<rparr>,
      plain_event (str ''2024.01.01'') 1704067200000 (1 / 10) 450 10550]"

section \<open>Properties of the resimulation\<close>

lemma simData_length: "length (simData lot b ds) = length ds"
  by (induction ds arbitrary: b) (simp_all add: Let_def)


text \<open>
  C3, as the spec states it, fails on the code whenever the swap is not 0, because the
  swap is not rescaled: for the trade of volume 0.1 with raw profit 100 and swap -5 in a
  fixed-lot report, the new profit is 95 at lot size 0.1 and 195 at lot size 0.2, while
  the scaled raw profit at 0.1 is 100, not 0.
\<close>

theorem C3_linearity_counterexample:
  "fst (fixedLotInfo [trade_with_swap]) \<and>
   js_mul (Fin 100) (js_div (Fin (1 / 10)) (volume trade_with_swap)) = Fin 100 \<and>
   js_div (simulatedProfit_of (Fin (2 / 10)) trade_with_swap)
          (simulatedProfit_of (Fin (1 / 10)) trade_with_swap) = Fin (195 / 95) \<and>
   js_div (Fin (2 / 10)) (Fin (1 / 10)) = Fin 2"
  by (simp add: trade_with_swap_def simulatedProfit_of_def js_gt_def fixedLotInfo_def)

text \<open>
  C3, amended. What scales with the lot size is the profit without the swap: for a trade
  of finite volume \<open>v > 0\<close> with finite components and lot sizes \<open>l1\<close>, \<open>l2\<close>, if the
  rescaled part \<open>(rawProfit + commission) * l1\<close> is not 0 then
  \<open>(profit(l2) - swap) / (profit(l1) - swap) = l2 / l1\<close>; with swap 0 this is
  \<open>profit(l2) / profit(l1) = l2 / l1\<close>. Arithmetic is exact in the model, so the
  equation holds without a rounding term.
\<close>

theorem C3_linearity:
  assumes v: "volume deal = Fin v" "0 < v"
    and rp: "or_default (rawProfit deal) (Fin 0) = Fin rp"
    and cm: "or_default (commission deal) (Fin 0) = Fin cm"
    and sw: "or_default (swap deal) (Fin 0) = Fin sw"
    and nz: "(rp + cm) * l1 \<noteq> 0"
  shows "js_div (js_sub (simulatedProfit_of (Fin l2) deal) (Fin sw))
                (js_sub (simulatedProfit_of (Fin l1) deal) (Fin sw)) = js_div (Fin l2) (Fin l1) \<and>
         (sw = 0 \<longrightarrow> js_div (simulatedProfit_of (Fin l2) deal) (simulatedProfit_of (Fin l1) deal)
                      = js_div (Fin l2) (Fin l1))"
proof -
  have p: "simulatedProfit_of (Fin l) deal = Fin (rp * (l / v) + sw + cm * (l / v))" for l
    using v rp cm sw by (simp add: simulatedProfit_of_def Let_def js_gt_def)
  have s: "js_sub (simulatedProfit_of (Fin l) deal) (Fin sw) = Fin ((rp + cm) * l / v)" for l
    by (simp add: p js_sub_def algebra_simps add_divide_distrib)
  have s0: "simulatedProfit_of (Fin l) deal = Fin ((rp + cm) * l / v)" if "sw = 0" for l
    using that by (simp add: p algebra_simps add_divide_distrib)
  from nz v have d: "(rp + cm) * l1 / v \<noteq> 0" "l1 \<noteq> 0" "rp + cm \<noteq> 0" by auto
  have q: "k * l2 / v / (k * l1 / v) = l2 / l1" if "k \<noteq> 0" for k :: real
    using that d(2) v(2) by simp
  have e: "(rp + cm) * l2 / v / ((rp + cm) * l1 / v) = l2 / l1"
    by (rule q) (rule d(3))
  have "js_div (Fin ((rp + cm) * l2 / v)) (Fin ((rp + cm) * l1 / v)) = js_div (Fin l2) (Fin l1)"
    using d e by simp
  then show ?thesis by (simp add: s s0)
qed

theorem C3_linearity_witness:
  "js_div (js_sub (simulatedProfit_of (Fin (2 / 10)) trade_with_swap) (Fin (- 5)))
          (js_sub (simulatedProfit_of (Fin (1 / 10)) trade_with_swap) (Fin (- 5))) = Fin 2 \<and>
   simulatedProfit_of (Fin (2 / 10)) trade_with_swap = Fin 195 \<and>
   simulatedProfit_of (Fin (1 / 10)) trade_with_swap = Fin 95"
proof -
  have "js_div (js_sub (simulatedProfit_of (Fin (2 / 10)) trade_with_swap) (Fin (- 5)))
          (js_sub (simulatedProfit_of (Fin (1 / 10)) trade_with_swap) (Fin (- 5)))
        = js_div (Fin (2 / 10)) (Fin (1 / 10))"
    using C3_linearity [of trade_with_swap "1 / 10" 100 0 "- 5" "1 / 10" "2 / 10"]
    by (simp add: trade_with_swap_def)
  then show ?thesis
    by (simp add: trade_with_swap_def simulatedProfit_of_def js_gt_def)
qed

section \<open>Properties of the statistics engine\<close>

lemma js_ge_zero_iff: "js_ge x (Fin 0) \<longleftrightarrow> x = PInf \<or> (\<exists>a. x = Fin a \<and> 0 \<le> a)"
  by (cases x) (auto simp: js_ge_def js_le_def)

lemma js_gt_Fin_iff: "js_gt (Fin a) y \<longleftrightarrow> y = NInf \<or> (\<exists>b. y = Fin b \<and> b < a)"
  by (cases y) (auto simp: js_gt_def)

(* fields untouched by drawdown_step / trade_step *)
lemma drawdown_step_trade_fields [simp]:
  "run_grossProfit (drawdown_step s b) = run_grossProfit s"
  "run_grossLoss (drawdown_step s b) = run_grossLoss s"
  "wins (drawdown_step s b) = wins s"
  "losses (drawdown_step s b) = losses s"
  by (simp_all add: drawdown_step_def Let_def)

lemma trade_step_dd_fields [simp]:
  "peakBalance (trade_step s p) = peakBalance s"
  "maxDDVal (trade_step s p) = maxDDVal s"
  "maxDDRel (trade_step s p) = maxDDRel s"
  by (simp_all add: trade_step_def Let_def)

lemma stats_step_gross:
  "run_grossProfit (stats_step s d) =
     (if js_gt (volume d) (Fin 0) \<and> js_ge (profit_read d) (Fin 0)
      then js_add (run_grossProfit s) (profit_read d) else run_grossProfit s)"
  by (simp add: stats_step_def trade_step_def Let_def)

lemma stats_step_wins_losses:
  "\<not> js_gt (volume d) (Fin 0) \<Longrightarrow>
     wins (stats_step s d) = wins s \<and> losses (stats_step s d) = losses s"
  by (simp add: stats_step_def Let_def)

lemma stats_step_dd:
  "peakBalance (stats_step s d) = peakBalance (drawdown_step s (balance_read d))"
  "maxDDVal (stats_step s d) = maxDDVal (drawdown_step s (balance_read d))"
  "maxDDRel (stats_step s d) = maxDDRel (drawdown_step s (balance_read d))"
  by (simp_all add: stats_step_def Let_def drawdown_step_def)

lemma foldl_no_trades:
  "\<forall>d\<in>set ds. \<not> js_gt (volume d) (Fin 0) \<Longrightarrow>
     wins (foldl stats_step s ds) = wins s \<and> losses (foldl stats_step s ds) = losses s"
  by (induction ds arbitrary: s) (simp_all add: stats_step_wins_losses)

lemma gross_nonneg_step:
  "js_ge (run_grossProfit s) (Fin 0) \<Longrightarrow> js_ge (run_grossProfit (stats_step s d)) (Fin 0)"
  by (auto simp: stats_step_gross js_ge_zero_iff)

lemma gross_nonneg_foldl:
  "js_ge (run_grossProfit s) (Fin 0) \<Longrightarrow> js_ge (run_grossProfit (foldl stats_step s ds)) (Fin 0)"
  by (induction ds arbitrary: s) (simp_all add: gross_nonneg_step)

lemma gross_finite_step:
  "isFinite (run_grossProfit s) \<Longrightarrow> isFinite (profit_read d) \<Longrightarrow>
    isFinite (run_grossProfit (stats_step s d))"
  by (cases "run_grossProfit s"; cases "profit_read d") (auto simp: stats_step_gross)

lemma gross_finite_foldl:
  "isFinite (run_grossProfit s) \<Longrightarrow> \<forall>d\<in>set ds. isFinite (profit_read d) \<Longrightarrow>
    isFinite (run_grossProfit (foldl stats_step s ds))"
  by (induction ds arbitrary: s) (simp_all add: gross_finite_step)

lemma js_max_nonneg:
  "js_ge x (Fin 0) \<Longrightarrow> js_ge y (Fin 0) \<Longrightarrow> js_ge (js_max x y) (Fin 0)"
  by (cases x; cases y) (auto simp: js_ge_def js_le_def)

lemma drawdown_step_inv:
  assumes pk: "peakBalance s = Fin p" "0 < p"
    and m: "js_ge (maxDDVal s) (Fin 0)" "js_ge (maxDDRel s) (Fin 0)"
    and b: "isFinite b"
  shows "(\<exists>q. peakBalance (drawdown_step s b) = Fin q \<and> 0 < q) \<and>
         js_ge (maxDDVal (drawdown_step s b)) (Fin 0) \<and>
         js_ge (maxDDRel (drawdown_step s b)) (Fin 0)"
proof -
  from b obtain x where x: "b = Fin x" by (cases b) auto
  show ?thesis
  proof (cases "p < x")
    case True
    with pk x m show ?thesis by (simp add: drawdown_step_def js_gt_def)
  next
    case False
    then have v: "js_ge (Fin (p - x)) (Fin 0)" and r: "js_ge (Fin ((p - x) / p * 100)) (Fin 0)"
      using pk(2) by (simp_all add: js_ge_zero_iff)
    have "drawdown_step s b =
        s\<lparr>maxDDVal := js_max (maxDDVal s) (Fin (p - x)),
          maxDDRel := js_max (maxDDRel s) (Fin ((p - x) / p * 100))\<rparr>"
      using False pk x by (simp add: drawdown_step_def js_gt_def js_sub_def Let_def)
    with pk m v r show ?thesis
      by (simp add: js_max_nonneg)
  qed
qed

lemma drawdown_foldl_inv:
  "peakBalance s = Fin p \<Longrightarrow> 0 < p \<Longrightarrow> js_ge (maxDDVal s) (Fin 0) \<Longrightarrow>
   js_ge (maxDDRel s) (Fin 0) \<Longrightarrow> \<forall>d\<in>set ds. isFinite (balance_read d) \<Longrightarrow>
   js_ge (maxDDVal (foldl stats_step s ds)) (Fin 0) \<and>
   js_ge (maxDDRel (foldl stats_step s ds)) (Fin 0)"
proof (induction ds arbitrary: s p)
  case Nil then show ?case by simp
next
  case (Cons d ds)
  from drawdown_step_inv [of s p "balance_read d"] Cons.prems
  obtain q where "peakBalance (stats_step s d) = Fin q" "0 < q"
    "js_ge (maxDDVal (stats_step s d)) (Fin 0)" "js_ge (maxDDRel (stats_step s d)) (Fin 0)"
    by (auto simp: stats_step_dd)
  with Cons.IH [of "stats_step s d" q] Cons.prems show ?case by simp
qed

lemma stats_pass_snoc:
  "stats_pass (ds @ [d]) dep = stats_step (stats_pass ds dep) d"
  by (simp add: stats_pass_def)

lemma js_eq_Fin0: "js_eq x (Fin 0) \<longleftrightarrow> x = Fin 0"
  by (cases x) auto

lemma stats_pass_last:
  "maxDDVal (stats_pass (ds @ [d]) dep) =
     (if js_gt (balance_read d) (peakBalance (stats_pass ds dep))
      then maxDDVal (stats_pass ds dep)
      else js_max (maxDDVal (stats_pass ds dep))
             (js_sub (peakBalance (stats_pass ds dep)) (balance_read d)))"
  "maxDDRel (stats_pass (ds @ [d]) dep) =
     (if js_gt (balance_read d) (peakBalance (stats_pass ds dep))
      then maxDDRel (stats_pass ds dep)
      else js_max (maxDDRel (stats_pass ds dep))
             (js_mul (js_div (js_sub (peakBalance (stats_pass ds dep)) (balance_read d))
                        (peakBalance (stats_pass ds dep))) (Fin 100)))"
  "peakBalance (stats_pass (ds @ [d]) dep) =
     (if js_gt (balance_read d) (peakBalance (stats_pass ds dep))
      then balance_read d else peakBalance (stats_pass ds dep))"
  by (simp_all add: stats_pass_snoc stats_step_dd drawdown_step_def Let_def)

text \<open>
  C5. For every non-empty event sequence the reported profit factor is the two-digit
  rendering of \<open>profitFactor_of\<close> the final state. When the gross loss of the pass is
  exactly 0 that number is the gross profit itself, so the reported profit factor is the
  same string as the reported gross profit; it is never NaN, and it is finite when the
  profits of the events are finite. When the gross loss is anything else, it is the gross
  profit divided by the gross loss.
\<close>

theorem C5_profitFactor:
  assumes ne: "simulatedData \<noteq> []"
  shows "profitFactor (calculateStats big simulatedData deposit) =
           Some (toFixed big 2 (profitFactor_of (stats_pass simulatedData deposit))) \<and>
         (run_grossLoss (stats_pass simulatedData deposit) = Fin 0 \<longrightarrow>
            profitFactor_of (stats_pass simulatedData deposit) =
              run_grossProfit (stats_pass simulatedData deposit) \<and>
            profitFactor (calculateStats big simulatedData deposit) =
              grossProfit (calculateStats big simulatedData deposit) \<and>
            profitFactor_of (stats_pass simulatedData deposit) \<noteq> NaN \<and>
            ((\<forall>d\<in>set simulatedData. isFinite (profit_read d)) \<longrightarrow>
               isFinite (profitFactor_of (stats_pass simulatedData deposit)))) \<and>
         (run_grossLoss (stats_pass simulatedData deposit) \<noteq> Fin 0 \<longrightarrow>
            profitFactor_of (stats_pass simulatedData deposit) =
              js_div (run_grossProfit (stats_pass simulatedData deposit))
                     (run_grossLoss (stats_pass simulatedData deposit)))"
proof -
  let ?s = "stats_pass simulatedData deposit"
  have nn: "js_ge (run_grossProfit ?s) (Fin 0)"
    unfolding stats_pass_def
    by (rule gross_nonneg_foldl) (simp add: init_state_def js_ge_zero_iff)
  then have nan: "run_grossProfit ?s \<noteq> NaN"
    by (auto simp: js_ge_zero_iff)
  have fin: "isFinite (run_grossProfit ?s)" if "\<forall>d\<in>set simulatedData. isFinite (profit_read d)"
    unfolding stats_pass_def
    by (rule gross_finite_foldl) (simp_all add: init_state_def that)
  have rep: "profitFactor (calculateStats big simulatedData deposit) =
      Some (toFixed big 2 (profitFactor_of ?s))"
    "grossProfit (calculateStats big simulatedData deposit) =
      Some (toFixed big 2 (run_grossProfit ?s))"
    using ne by (simp_all add: calculateStats_def Let_def)
  show ?thesis
    using nan fin rep by (simp add: profitFactor_of_def js_eq_Fin0)
qed

theorem C5_profitFactor_witness:
  "winners_only \<noteq> [] \<and>
   run_grossLoss (stats_pass winners_only (Fin 10000)) = Fin 0 \<and>
   run_grossProfit (stats_pass winners_only (Fin 10000)) = Fin 550 \<and>
   profitFactor (calculateStats no_big winners_only (Fin 10000)) = Some (str ''550.00'') \<and>
   grossProfit (calculateStats no_big winners_only (Fin 10000)) = Some (str ''550.00'') \<and>
   scenario_B \<noteq> [] \<and>
   run_grossLoss (stats_pass scenario_B (Fin 10000)) = Fin 100 \<and>
   run_grossProfit (stats_pass scenario_B (Fin 10000)) = Fin 1100 \<and>
   profitFactor (calculateStats no_big scenario_B (Fin 10000)) = Some (str ''11.00'')"
proof -
  have ne: "winners_only \<noteq> []" "scenario_B \<noteq> []"
    by (simp_all add: winners_only_def scenario_B_def scenario_A_def Let_def)
  have w: "run_grossLoss (stats_pass winners_only (Fin 10000)) = Fin 0"
    "run_grossProfit (stats_pass winners_only (Fin 10000)) = Fin 550"
    by code_simp+
  have b: "run_grossLoss (stats_pass scenario_B (Fin 10000)) = Fin 100"
    "run_grossProfit (stats_pass scenario_B (Fin 10000)) = Fin 1100"
    by code_simp+
  have t: "toFixed no_big 2 (Fin 550) = str ''550.00''"
    "toFixed no_big 2 (js_div (Fin 1100) (Fin 100)) = str ''11.00''"
    by (simp_all add: toFixed_def Let_def) (simp_all add: digits.simps str_def)
  note c1 = C5_profitFactor [OF ne(1), of no_big "Fin 10000"]
  from c1 w(1) have f1: "profitFactor_of (stats_pass winners_only (Fin 10000)) =
      run_grossProfit (stats_pass winners_only (Fin 10000))"
    and e1: "profitFactor (calculateStats no_big winners_only (Fin 10000)) =
      grossProfit (calculateStats no_big winners_only (Fin 10000))"
    by blast+
  from c1 have "profitFactor (calculateStats no_big winners_only (Fin 10000)) =
      Some (toFixed no_big 2 (profitFactor_of (stats_pass winners_only (Fin 10000))))"
    by blast
  then have p1: "profitFactor (calculateStats no_big winners_only (Fin 10000)) =
      Some (str ''550.00'')"
    by (simp only: f1 w(2) t(1))
  with e1 have g1: "grossProfit (calculateStats no_big winners_only (Fin 10000)) =
      Some (str ''550.00'')"
    by simp
  note c2 = C5_profitFactor [OF ne(2), of no_big "Fin 10000"]
  have nz: "run_grossLoss (stats_pass scenario_B (Fin 10000)) \<noteq> Fin 0"
    by (simp add: b(1))
  from c2 nz have f2: "profitFactor_of (stats_pass scenario_B (Fin 10000)) =
      js_div (run_grossProfit (stats_pass scenario_B (Fin 10000)))
             (run_grossLoss (stats_pass scenario_B (Fin 10000)))"
    by blast
  from c2 have "profitFactor (calculateStats no_big scenario_B (Fin 10000)) =
      Some (toFixed no_big 2 (profitFactor_of (stats_pass scenario_B (Fin 10000))))"
    by blast
  then have p2: "profitFactor (calculateStats no_big scenario_B (Fin 10000)) =
      Some (str ''11.00'')"
    by (simp only: f2 b t(2))
  from ne w b p1 g1 p2 show ?thesis by blast
qed

lemma js_max_nonneg_left:
  "js_ge x (Fin 0) \<Longrightarrow> isFinite y \<Longrightarrow> js_ge (js_max x y) (Fin 0)"
  by (cases x; cases y) (auto simp: js_ge_def js_le_def)

lemma drawdown_step_general:
  assumes pk: "peakBalance s = Fin p"
    and b: "b = Fin x"
    and v: "js_ge (maxDDVal s) (Fin 0)"
  shows "(\<exists>q. peakBalance (drawdown_step s b) = Fin q) \<and>
         js_ge (maxDDVal (drawdown_step s b)) (Fin 0) \<and>
         (js_ge (maxDDRel s) (Fin 0) \<and> \<not> (p = 0 \<and> x = 0) \<longrightarrow>
            js_ge (maxDDRel (drawdown_step s b)) (Fin 0))"
proof (cases "p < x")
  case True
  with pk b v show ?thesis by (simp add: drawdown_step_def js_gt_def)
next
  case False
  then have dv: "js_ge (Fin (p - x)) (Fin 0)"
    by (simp add: js_ge_zero_iff)
  have st: "drawdown_step s b =
      s\<lparr>maxDDVal := js_max (maxDDVal s) (Fin (p - x)),
        maxDDRel := js_max (maxDDRel s) (js_mul (js_div (Fin (p - x)) (Fin p)) (Fin 100))\<rparr>"
    using False pk b by (simp add: drawdown_step_def js_gt_def js_sub_def Let_def)
  have rel: "js_ge (js_max (maxDDRel s) (js_mul (js_div (Fin (p - x)) (Fin p)) (Fin 100))) (Fin 0)"
    if r: "js_ge (maxDDRel s) (Fin 0)" and nz: "\<not> (p = 0 \<and> x = 0)"
  proof (cases "p = 0")
    case True
    with nz False have "0 < p - x" by simp
    with True have e: "js_mul (js_div (Fin (p - x)) (Fin p)) (Fin 100) = PInf"
      by (simp add: signed_inf_def)
    have "js_ge PInf (Fin 0)" by (simp add: js_ge_zero_iff)
    with r have "js_ge (js_max (maxDDRel s) PInf) (Fin 0)" by (rule js_max_nonneg)
    then show ?thesis by (simp only: e)
  next
    case False
    then have "isFinite (js_mul (js_div (Fin (p - x)) (Fin p)) (Fin 100))" by simp
    with r show ?thesis by (rule js_max_nonneg_left)
  qed
  from pk v dv rel show ?thesis
    by (simp add: st js_max_nonneg)
qed

lemma drawdown_pass_general:
  assumes dep: "deposit = Fin dep"
    and fin: "\<forall>d\<in>set xs. isFinite (balance_read d)"
  shows "(\<exists>q. peakBalance (stats_pass xs deposit) = Fin q) \<and>
         js_ge (maxDDVal (stats_pass xs deposit)) (Fin 0) \<and>
         ((\<forall>i<length xs. \<not> (peakBalance (stats_pass (take i xs) deposit) = Fin 0 \<and>
                              balance_read (xs ! i) = Fin 0)) \<longrightarrow>
            js_ge (maxDDRel (stats_pass xs deposit)) (Fin 0))"
  using fin
proof (induction xs rule: rev_induct)
  case Nil
  then show ?case
    by (simp add: stats_pass_def init_state_def dep js_ge_zero_iff)
next
  case (snoc d xs)
  let ?s = "stats_pass xs deposit"
  from snoc have ih: "\<exists>q. peakBalance ?s = Fin q" "js_ge (maxDDVal ?s) (Fin 0)"
    "(\<forall>i<length xs. \<not> (peakBalance (stats_pass (take i xs) deposit) = Fin 0 \<and>
         balance_read (xs ! i) = Fin 0)) \<longrightarrow> js_ge (maxDDRel ?s) (Fin 0)"
    by simp_all
  from ih(1) obtain p where p: "peakBalance ?s = Fin p" ..
  from snoc.prems obtain x where x: "balance_read d = Fin x"
    by (cases "balance_read d") auto
  have step: "peakBalance (stats_pass (xs @ [d]) deposit) = peakBalance (drawdown_step ?s (balance_read d))"
    "maxDDVal (stats_pass (xs @ [d]) deposit) = maxDDVal (drawdown_step ?s (balance_read d))"
    "maxDDRel (stats_pass (xs @ [d]) deposit) = maxDDRel (drawdown_step ?s (balance_read d))"
    by (simp_all add: stats_pass_snoc stats_step_dd)
  note g = drawdown_step_general [OF p x ih(2)]
  have rel: "js_ge (maxDDRel (stats_pass (xs @ [d]) deposit)) (Fin 0)"
    if h: "\<forall>i<length (xs @ [d]). \<not> (peakBalance (stats_pass (take i (xs @ [d])) deposit) = Fin 0 \<and>
              balance_read ((xs @ [d]) ! i) = Fin 0)"
  proof -
    have "\<forall>i<length xs. \<not> (peakBalance (stats_pass (take i xs) deposit) = Fin 0 \<and>
              balance_read (xs ! i) = Fin 0)"
    proof (intro allI impI)
      fix i assume i: "i < length xs"
      with h have "\<not> (peakBalance (stats_pass (take i (xs @ [d])) deposit) = Fin 0 \<and>
              balance_read ((xs @ [d]) ! i) = Fin 0)" by simp
      with i show "\<not> (peakBalance (stats_pass (take i xs) deposit) = Fin 0 \<and>
              balance_read (xs ! i) = Fin 0)" by (simp add: nth_append)
    qed
    with ih(3) have r: "js_ge (maxDDRel ?s) (Fin 0)" by blast
    have "length xs < length (xs @ [d])" by simp
    with h have "\<not> (peakBalance (stats_pass (take (length xs) (xs @ [d])) deposit) = Fin 0 \<and>
              balance_read ((xs @ [d]) ! length xs) = Fin 0)" by blast
    then have "\<not> (p = 0 \<and> x = 0)" by (simp add: p x)
    with g r show ?thesis by (simp add: step(3))
  qed
  from g rel show ?case
    by (simp add: step)
qed

text \<open>
  C8, as the spec states it for every event sequence and starting balance, fails when
  the running peak is 0 and an event leaves the balance at 0: the drawdown 0 is divided by
  the peak 0, which is NaN, and \<open>Math.max\<close> keeps NaN. This is what happens for a report
  without initial deposit whose first trade has profit 0, and for its resimulation at any
  lot size.
\<close>

theorem C8_zero_peak_counterexample:
  "maxDDRel (stats_pass [flat_trade] (Fin 0)) = NaN \<and>
   \<not> js_ge (maxDDRel (stats_pass [flat_trade] (Fin 0))) (Fin 0) \<and>
   maxDDRel (stats_pass (simData (Fin (1 / 10)) (Fin 0) [flat_trade]) (Fin 0)) = NaN \<and>
   balanceDDRel (calculateStats no_big [flat_trade] (Fin 0)) = Some (str ''NaN% (0.00)'')"
proof -
  have r: "maxDDRel (stats_pass [flat_trade] (Fin 0)) = NaN"
    and v: "maxDDVal (stats_pass [flat_trade] (Fin 0)) = Fin 0"
    and s: "maxDDRel (stats_pass (simData (Fin (1 / 10)) (Fin 0) [flat_trade]) (Fin 0)) = NaN"
    by code_simp+
  have g: "\<not> js_ge NaN (Fin 0)"
    by (simp add: js_ge_def js_le_def)
  have t: "toFixed no_big 2 NaN @ str ''% ('' @ toFixed no_big 2 (Fin 0) @ str '')'' =
      str ''NaN% (0.00)''"
    by (simp add: toFixed_def Let_def) (simp add: digits.simps str_def)
  have "balanceDDRel (calculateStats no_big [flat_trade] (Fin 0)) =
      Some (toFixed no_big 2 (maxDDRel (stats_pass [flat_trade] (Fin 0))) @ str ''% ('' @
            toFixed no_big 2 (maxDDVal (stats_pass [flat_trade] (Fin 0))) @ str '')'')"
    by (simp add: calculateStats_def Let_def)
  with r v s g t show ?thesis by simp
qed

text \<open>
  C8, amended. For a finite starting balance and events with finite balances, the maximum
  absolute drawdown of the pass is \<open>\<ge> 0\<close>, and the maximum relative drawdown is \<open>\<ge> 0\<close>
  provided no event has a balance of exactly 0 while the running peak before it is exactly
  0; this is so in particular when the starting balance is greater than 0, and when no
  balance is exactly 0 (also from the starting balance 0). For every sequence, the last
  event updates the maxima as the spec says: when its balance is not above the running
  peak, the absolute drawdown \<open>peak - balance\<close> and the relative drawdown
  \<open>(peak - balance) / peak * 100\<close> enter the two running maxima independently;
  otherwise the balance becomes the new peak and both maxima stay.
\<close>

theorem C8_drawdown:
  "(deposit = Fin dep \<and> (\<forall>d\<in>set simulatedData. isFinite (balance_read d)) \<longrightarrow>
      js_ge (maxDDVal (stats_pass simulatedData deposit)) (Fin 0)) \<and>
   (deposit = Fin dep \<and> (\<forall>d\<in>set simulatedData. isFinite (balance_read d)) \<and>
    (\<forall>i<length simulatedData.
        \<not> (peakBalance (stats_pass (take i simulatedData) deposit) = Fin 0 \<and>
           balance_read (simulatedData ! i) = Fin 0)) \<longrightarrow>
      js_ge (maxDDRel (stats_pass simulatedData deposit)) (Fin 0)) \<and>
   (deposit = Fin dep \<and> (\<forall>d\<in>set simulatedData. isFinite (balance_read d)) \<and>
    (0 < dep \<or> (\<forall>d\<in>set simulatedData. balance_read d \<noteq> Fin 0)) \<longrightarrow>
      js_ge (maxDDRel (stats_pass simulatedData deposit)) (Fin 0)) \<and>
   maxDDVal (stats_pass (ds @ [d]) start) =
     (if js_gt (balance_read d) (peakBalance (stats_pass ds start))
      then maxDDVal (stats_pass ds start)
      else js_max (maxDDVal (stats_pass ds start))
             (js_sub (peakBalance (stats_pass ds start)) (balance_read d))) \<and>
   maxDDRel (stats_pass (ds @ [d]) start) =
     (if js_gt (balance_read d) (peakBalance (stats_pass ds start))
      then maxDDRel (stats_pass ds start)
      else js_max (maxDDRel (stats_pass ds start))
             (js_mul (js_div (js_sub (peakBalance (stats_pass ds start)) (balance_read d))
                        (peakBalance (stats_pass ds start))) (Fin 100))) \<and>
   peakBalance (stats_pass (ds @ [d]) start) =
     (if js_gt (balance_read d) (peakBalance (stats_pass ds start))
      then balance_read d else peakBalance (stats_pass ds start))"
proof -
  let ?fin = "\<forall>d\<in>set simulatedData. isFinite (balance_read d)"
  let ?nohit = "\<forall>i<length simulatedData.
        \<not> (peakBalance (stats_pass (take i simulatedData) deposit) = Fin 0 \<and>
           balance_read (simulatedData ! i) = Fin 0)"
  have a: "js_ge (maxDDVal (stats_pass simulatedData deposit)) (Fin 0)"
    if "deposit = Fin dep" ?fin
    using drawdown_pass_general [OF that] by blast
  have b: "js_ge (maxDDRel (stats_pass simulatedData deposit)) (Fin 0)"
    if "deposit = Fin dep" ?fin ?nohit
    using drawdown_pass_general [OF that(1,2)] that(3) by blast
  have c: "js_ge (maxDDRel (stats_pass simulatedData deposit)) (Fin 0)"
    if d: "deposit = Fin dep" and f: ?fin
      and h: "0 < dep \<or> (\<forall>d\<in>set simulatedData. balance_read d \<noteq> Fin 0)"
  proof (cases "0 < dep")
    case True
    with d f drawdown_foldl_inv [of "init_state deposit" dep simulatedData] show ?thesis
      by (simp add: stats_pass_def init_state_def js_ge_zero_iff)
  next
    case False
    with h have "\<forall>d\<in>set simulatedData. balance_read d \<noteq> Fin 0" by blast
    then have ?nohit by simp
    with d f show ?thesis by (rule b)
  qed
  from a b c stats_pass_last [of ds d start] show ?thesis
    by blast
qed

theorem C8_drawdown_witness:
  "list_all (\<lambda>d. isFinite (balance_read d)) scenario_B \<and>
   maxDDVal (stats_pass scenario_B (Fin 10000)) = Fin 100 \<and>
   js_ge (maxDDVal (stats_pass scenario_B (Fin 10000))) (Fin 0) \<and>
   js_ge (maxDDRel (stats_pass scenario_B (Fin 10000))) (Fin 0) \<and>
   list_all (\<lambda>d. isFinite (balance_read d) \<and> balance_read d \<noteq> Fin 0) scenario_A \<and>
   maxDDVal (stats_pass scenario_A (Fin 0)) = Fin 50 \<and>
   js_ge (maxDDVal (stats_pass scenario_A (Fin 0))) (Fin 0) \<and>
   js_ge (maxDDRel (stats_pass scenario_A (Fin 0))) (Fin 0)"
proof -
  have f: "list_all (\<lambda>d. isFinite (balance_read d)) scenario_B"
    by code_simp
  then have f': "\<forall>d\<in>set scenario_B. isFinite (balance_read d)"
    by (simp only: list_all_iff)
  have v: "maxDDVal (stats_pass scenario_B (Fin 10000)) = Fin 100"
    by code_simp
  note t = C8_drawdown [of "Fin 10000" 10000 scenario_B "[]" flat_trade "Fin 0"]
  from t f' have b1: "js_ge (maxDDVal (stats_pass scenario_B (Fin 10000))) (Fin 0)"
    by blast
  from t f' have b2: "js_ge (maxDDRel (stats_pass scenario_B (Fin 10000))) (Fin 0)"
    by simp
  have g: "list_all (\<lambda>d. isFinite (balance_read d) \<and> balance_read d \<noteq> Fin 0) scenario_A"
    by code_simp
  then have g': "\<forall>d\<in>set scenario_A. isFinite (balance_read d)"
    and g'': "\<forall>d\<in>set scenario_A. balance_read d \<noteq> Fin 0"
    by (simp_all add: list_all_iff)
  have n: "\<forall>i<length scenario_A.
        \<not> (peakBalance (stats_pass (take i scenario_A) (Fin 0)) = Fin 0 \<and>
           balance_read (scenario_A ! i) = Fin 0)"
    using g'' by simp
  have w: "maxDDVal (stats_pass scenario_A (Fin 0)) = Fin 50"
    by code_simp
  note u = C8_drawdown [of "Fin 0" 0 scenario_A "[]" flat_trade "Fin 0"]
  from u g' have a1: "js_ge (maxDDVal (stats_pass scenario_A (Fin 0))) (Fin 0)"
    by blast
  from u g' n have a2: "js_ge (maxDDRel (stats_pass scenario_A (Fin 0))) (Fin 0)"
    by blast
  from f v b1 b2 g w a1 a2 show ?thesis by (intro conjI)
qed

text \<open>
  C10. For every non-empty event sequence in which every event has volume 0,
  \<open>calculateStats\<close> returns \<open>totalTrades = 0\<close>, and the fields \<open>profitTrades\<close> and
  \<open>lossTrades\<close> are both the string \<open>0 (NaN%)\<close>: the counts 0 divided by the trade count 0.
\<close>

theorem C10_no_trades:
  assumes ne: "simulatedData \<noteq> []"
    and vol: "\<forall>d\<in>set simulatedData. volume d = Fin 0"
  shows "totalTrades (calculateStats big simulatedData deposit) = Fin 0 \<and>
         profitTrades (calculateStats big simulatedData deposit) = Some (str ''0 (NaN%)'') \<and>
         lossTrades (calculateStats big simulatedData deposit) = Some (str ''0 (NaN%)'')"
proof -
  from vol have nt: "\<forall>d\<in>set simulatedData. \<not> js_gt (volume d) (Fin 0)"
    by (simp add: js_gt_def)
  then have f: "filter (\<lambda>d. js_gt (volume d) (Fin 0)) simulatedData = []"
    by (simp add: filter_empty_conv)
  from foldl_no_trades [OF nt, of "init_state deposit"]
  have w: "wins (stats_pass simulatedData deposit) = 0"
    "losses (stats_pass simulatedData deposit) = 0"
    by (simp_all add: stats_pass_def init_state_def)
  have d0: "digits 0 = [48]" by (simp add: digits.simps)
  have s: "[48] @ str '' ('' @ toFixed big 2 NaN @ str ''%)'' = str ''0 (NaN%)''"
    by (simp add: toFixed_def str_def)
  show ?thesis
    using ne by (simp add: calculateStats_def Let_def f w d0 s del: append.simps)
qed

theorem C10_no_trades_witness:
  "volume balance_op = Fin 0 \<and>
   totalTrades (calculateStats no_big [balance_op] (Fin 0)) = Fin 0 \<and>
   profitTrades (calculateStats no_big [balance_op] (Fin 0)) = Some (str ''0 (NaN%)'') \<and>
   lossTrades (calculateStats no_big [balance_op] (Fin 0)) = Some (str ''0 (NaN%)'')"
proof -
  have v: "volume balance_op = Fin 0"
    by (simp add: balance_op_def)
  then have h: "[balance_op] \<noteq> []" "\<forall>d\<in>set [balance_op]. volume d = Fin 0"
    by simp_all
  from C10_no_trades [OF h, of no_big "Fin 0"] v show ?thesis
    by blast
qed

section \<open>Properties of the numeric-cell routine\<close>

lemma filter_not_dropWhile: "filter (\<lambda>x. \<not> P x) (dropWhile P xs) = filter (\<lambda>x. \<not> P x) xs"
  by (induction xs) auto

lemma strip_spaces_trim: "strip_spaces (trim t) = strip_spaces t"
proof -
  have "filter (\<lambda>x. \<not> is_space x) (rev (dropWhile is_space (rev (dropWhile is_space t))))
      = rev (filter (\<lambda>x. \<not> is_space x) (dropWhile is_space (rev (dropWhile is_space t))))"
    by (simp only: rev_filter)
  also have "\<dots> = rev (filter (\<lambda>x. \<not> is_space x) (rev (dropWhile is_space t)))"
    by (simp only: filter_not_dropWhile)
  also have "\<dots> = filter (\<lambda>x. \<not> is_space x) (dropWhile is_space t)"
    by (simp add: rev_filter)
  also have "\<dots> = filter (\<lambda>x. \<not> is_space x) t"
    by (simp only: filter_not_dropWhile)
  finally show ?thesis by (simp add: strip_spaces_def trim_def)
qed

lemma strip_spaces_idem: "strip_spaces (strip_spaces t) = strip_spaces t"
  by (simp add: strip_spaces_def)

lemma is_space_minus: "is_space (if c \<in> {0x2013, 0x2014, 0x2212} then 0x2D else c) = is_space c"
  by (auto simp: is_space_def)

lemma strip_normalize: "strip_spaces (normalize_minus t) = normalize_minus (strip_spaces t)"
  by (induction t) (auto simp: strip_spaces_def normalize_minus_def is_space_def)

lemma normalize_idem: "normalize_minus (normalize_minus t) = normalize_minus t"
  by (induction t) (auto simp: normalize_minus_def)

lemma cleanVal_Some:
  "cleanVal (Some t) =
     (let clean = normalize_minus (strip_spaces t);
          clean' = (if js_includes clean (str '','') \<and> \<not> js_includes clean (str ''.'')
                    then replace_first 0x2C 0x2E clean else remove_all 0x2C clean);
          val = parseFloat clean'
      in if isFinite val then val else Fin 0)"
proof (cases "t = []")
  case True
  then show ?thesis
    by (simp add: cleanVal_def strip_spaces_def normalize_minus_def remove_all_def
        parseFloat_def str_def)
next
  case False
  then show ?thesis
    by (simp add: cleanVal_def strip_spaces_trim)
qed

lemma cleanVal_finite: "isFinite (cleanVal x)"
  by (cases x) (auto simp: cleanVal_def Let_def)

lemma cleanVal_strip: "cleanVal (Some (strip_spaces t)) = cleanVal (Some t)"
  by (simp only: cleanVal_Some strip_spaces_idem)

lemma cleanVal_normalize: "cleanVal (Some (normalize_minus t)) = cleanVal (Some t)"
  by (simp only: cleanVal_Some strip_normalize normalize_idem)

text \<open>
  C6. \<open>cleanVal\<close> always returns a finite number: a parse result that is NaN or infinite
  becomes 0, and so do undefined and the empty string. On a string it is \<open>parseFloat\<close> of
  the text with all white space removed and the dash variants U+2013, U+2014 and U+2212
  replaced by \<open>-\<close>, in which the first comma has become a point if there is a comma and
  no point, and from which all commas have been removed otherwise. So white space
  anywhere in the text and the choice of dash do not change the result. The four inputs of
  the spec give 1234.56, 1234.56, -12.3 and 0.
\<close>

theorem C6_cleanVal:
  "isFinite (cleanVal x) \<and>
   cleanVal None = Fin 0 \<and>
   cleanVal (Some []) = Fin 0 \<and>
   cleanVal (Some t) =
     (let clean = normalize_minus (strip_spaces t);
          clean' = (if js_includes clean (str '','') \<and> \<not> js_includes clean (str ''.'')
                    then replace_first 0x2C 0x2E clean else remove_all 0x2C clean);
          val = parseFloat clean'
      in if isFinite val then val else Fin 0) \<and>
   cleanVal (Some (strip_spaces t)) = cleanVal (Some t) \<and>
   cleanVal (Some (normalize_minus t)) = cleanVal (Some t) \<and>
   cleanVal (Some (str ''1,234.56'')) = Fin 1234.56 \<and>
   cleanVal (Some (str ''1234,56'')) = Fin 1234.56 \<and>
   cleanVal (Some (0x2212 # str ''12.30'')) = Fin (- 12.3) \<and>
   cleanVal (Some (str ''Infinity'')) = Fin 0 \<and>
   cleanVal (Some (str ''n/a'')) = Fin 0"
proof -
  have e0: "cleanVal None = Fin 0" "cleanVal (Some []) = Fin 0"
    by (simp_all add: cleanVal_def)
  have e1: "cleanVal (Some (str ''1,234.56'')) = Fin 1234.56"
    by code_simp
  have e2: "cleanVal (Some (str ''1234,56'')) = Fin 1234.56"
    by code_simp
  have e3: "cleanVal (Some (0x2212 # str ''12.30'')) = Fin (- 12.3)"
    by code_simp
  have e4: "cleanVal (Some (str ''Infinity'')) = Fin 0"
    by code_simp
  have e5: "cleanVal (Some (str ''n/a'')) = Fin 0"
    by code_simp
  from cleanVal_finite [of x] e0 cleanVal_Some [of t] cleanVal_strip [of t]
    cleanVal_normalize [of t] e1 e2 e3 e4 e5
  show ?thesis by blast
qed

theorem C6_cleanVal_witness:
  "cleanVal (Some (str '' 1 234,5 '')) = cleanVal (Some (str ''1234,5'')) \<and>
   cleanVal (Some (0x2014 # str ''7'')) = cleanVal (Some (str ''-7'')) \<and>
   isFinite (cleanVal (Some (str ''1e5x'')))"
proof -
  have s: "strip_spaces (str '' 1 234,5 '') = str ''1234,5''"
    by code_simp
  have n: "normalize_minus (0x2014 # str ''7'') = str ''-7''"
    by code_simp
  from C6_cleanVal [of "Some (str ''1e5x'')" "str '' 1 234,5 ''"]
  have a: "cleanVal (Some (strip_spaces (str '' 1 234,5 ''))) = cleanVal (Some (str '' 1 234,5 ''))"
    and f: "isFinite (cleanVal (Some (str ''1e5x'')))"
    by blast+
  from C6_cleanVal [of None "0x2014 # str ''7''"]
  have b: "cleanVal (Some (normalize_minus (0x2014 # str ''7''))) = cleanVal (Some (0x2014 # str ''7''))"
    by blast
  from a b f show ?thesis
    by (simp only: s n)
qed

section \<open>Properties of the report parser\<close>

lemma findIndex_None: "findIndex P xs = None \<longleftrightarrow> (\<forall>x\<in>set xs. \<not> P x)"
  by (induction xs) (auto split: option.splits)

lemma findIndex_Some:
  "findIndex P xs = Some i \<longleftrightarrow> i < length xs \<and> P (xs ! i) \<and> (\<forall>j<i. \<not> P (xs ! j))"
proof (induction xs arbitrary: i)
  case Nil
  then show ?case by simp
next
  case (Cons x xs)
  show ?case
  proof (cases "P x")
    case True
    then show ?thesis by (cases i) auto
  next
    case False
    show ?thesis
    proof (cases i)
      case 0
      with False show ?thesis by (auto split: option.splits)
    next
      case (Suc k)
      have "(\<forall>j<Suc k. \<not> P ((x # xs) ! j)) \<longleftrightarrow> (\<forall>j<k. \<not> P (xs ! j))"
        using False by (auto simp: less_Suc_eq_0_disj)
      with Suc False Cons.IH [of k] show ?thesis
        by (auto split: option.splits)
    qed
  qed
qed

lemma getVal_absent:
  "\<forall>c\<in>set cells. \<not> startsWith (trim (textContent c)) label \<Longrightarrow>
     getVal cells label = Some (str ''0'')"
  using findIndex_None [of "\<lambda>c. startsWith (trim (textContent c)) label" cells]
  by (simp add: getVal_def)

lemma getVal_present:
  "i < length cells \<Longrightarrow> startsWith (trim (textContent (cells ! i))) label \<Longrightarrow>
   \<forall>j<i. \<not> startsWith (trim (textContent (cells ! j))) label \<Longrightarrow>
     getVal cells label =
       (if i + 1 < length cells then Some (trim (textContent (cells ! (i + 1)))) else None)"
  using findIndex_Some [of "\<lambda>c. startsWith (trim (textContent c)) label" cells i]
  by (simp add: getVal_def)

lemma processData_Inr:
  assumes "processData E doc = Inr r"
  shows "reportMeta r =
           (case fixed_lot (data r) of
              None \<Rightarrow> scrape_meta (querySelectorAll [str ''td''] doc)
            | Some firstVol \<Rightarrow>
                (scrape_meta (querySelectorAll [str ''td''] doc))\<lparr>fixedLotSize := Some firstVol\<rparr>)"
    and "\<exists>deals. collect_deals E (detect_columns E (querySelectorAll [str ''tr''] doc))
                  (querySelectorAll [str ''tr''] doc) = Inr deals \<and>
                data r = (if deals \<noteq> [] then sort_deals deals else [])"
proof -
  from assms obtain deals where
    c: "collect_deals E (detect_columns E (querySelectorAll [str ''tr''] doc))
            (querySelectorAll [str ''tr''] doc) = Inr deals"
    by (cases "collect_deals E (detect_columns E (querySelectorAll [str ''tr''] doc))
            (querySelectorAll [str ''tr''] doc)") (simp_all add: processData_def Let_def)
  with assms have r: "r = \<lparr>data = (if deals \<noteq> [] then sort_deals deals else []),
      initialDeposit = scrape_deposit (querySelectorAll [str ''td''] doc),
      reportMeta = (case fixed_lot (if deals \<noteq> [] then sort_deals deals else []) of
                      None \<Rightarrow> scrape_meta (querySelectorAll [str ''td''] doc)
                    | Some firstVol \<Rightarrow>
                        (scrape_meta (querySelectorAll [str ''td''] doc))
                          \<lparr>fixedLotSize := Some firstVol\<rparr>)\<rparr>"
    by (simp add: processData_def Let_def)
  show "reportMeta r =
           (case fixed_lot (data r) of
              None \<Rightarrow> scrape_meta (querySelectorAll [str ''td''] doc)
            | Some firstVol \<Rightarrow>
                (scrape_meta (querySelectorAll [str ''td''] doc))\<lparr>fixedLotSize := Some firstVol\<rparr>)"
    by (subst (1 2) r) simp
  show "\<exists>deals. collect_deals E (detect_columns E (querySelectorAll [str ''tr''] doc))
                  (querySelectorAll [str ''tr''] doc) = Inr deals \<and>
                data r = (if deals \<noteq> [] then sort_deals deals else [])"
    using c by (subst r) simp
qed

lemma scrape_meta_fixedLotSize: "fixedLotSize (scrape_meta cells) = None"
  by (simp add: scrape_meta_def)

lemma processData_meta:
  assumes "processData E doc = Inr r"
  shows "reportMeta r =
     (scrape_meta (querySelectorAll [str ''td''] doc))\<lparr>fixedLotSize := fixed_lot (data r)\<rparr>"
proof (cases "fixed_lot (data r)")
  case None
  then show ?thesis
    using processData_Inr(1) [OF assms] scrape_meta_fixedLotSize [of "querySelectorAll [str ''td''] doc"]
    by (simp add: scrape_meta_def)
next
  case (Some v)
  then show ?thesis
    using processData_Inr(1) [OF assms] by simp
qed

text \<open>
  C9. \<open>getVal\<close> on a list of cells and a label: when no cell has a trimmed text that
  starts with the label, the value is the string \<open>0\<close>; when \<open>i\<close> is the first cell whose
  trimmed text starts with the label, the value is the trimmed text of cell \<open>i + 1\<close>, and
  it is undefined when cell \<open>i\<close> is the last cell; in no case is there an error. In the
  result of \<open>processData\<close> every string metric is \<open>getVal\<close> of its label on the \<open>td\<close>
  cells of the document, and \<open>totalTrades\<close> is the integer parsed from it, or 0.
\<close>

theorem C9_getVal:
  "((\<forall>c\<in>set cells. \<not> startsWith (trim (textContent c)) label) \<longrightarrow>
      getVal cells label = Some (str ''0'')) \<and>
   (i < length cells \<and> startsWith (trim (textContent (cells ! i))) label \<and>
    (\<forall>j<i. \<not> startsWith (trim (textContent (cells ! j))) label) \<longrightarrow>
      getVal cells label =
        (if i + 1 < length cells then Some (trim (textContent (cells ! (i + 1)))) else None)) \<and>
   (processData E doc = Inr r \<longrightarrow>
      totalNetProfit (reportMeta r) = getVal (querySelectorAll [str ''td''] doc) (str ''Total Net Profit:'') \<and>
      grossProfit (reportMeta r) = getVal (querySelectorAll [str ''td''] doc) (str ''Gross Profit:'') \<and>
      grossLoss (reportMeta r) = getVal (querySelectorAll [str ''td''] doc) (str ''Gross Loss:'') \<and>
      profitFactor (reportMeta r) = getVal (querySelectorAll [str ''td''] doc) (str ''Profit Factor:'') \<and>
      sharpeRatio (reportMeta r) = getVal (querySelectorAll [str ''td''] doc) (str ''Sharpe Ratio:'') \<and>
      balanceDDMax (reportMeta r) =
        getVal (querySelectorAll [str ''td''] doc) (str ''Balance Drawdown Maximal:'') \<and>
      equityDDMax (reportMeta r) =
        getVal (querySelectorAll [str ''td''] doc) (str ''Equity Drawdown Maximal:'') \<and>
      balanceDDRel (reportMeta r) =
        getVal (querySelectorAll [str ''td''] doc) (str ''Balance Drawdown Relative:'') \<and>
      equityDDRel (reportMeta r) =
        getVal (querySelectorAll [str ''td''] doc) (str ''Equity Drawdown Relative:'') \<and>
      totalTrades (reportMeta r) =
        or_default (Some (parseInt (or_str
          (getVal (querySelectorAll [str ''td''] doc) (str ''Total Trades:'')) (str ''0'')))) (Fin 0) \<and>
      shortTrades (reportMeta r) =
        getVal (querySelectorAll [str ''td''] doc) (str ''Short Trades (won %):'') \<and>
      longTrades (reportMeta r) =
        getVal (querySelectorAll [str ''td''] doc) (str ''Long Trades (won %):'') \<and>
      profitTrades (reportMeta r) =
        getVal (querySelectorAll [str ''td''] doc) (str ''Profit Trades (% of total):'') \<and>
      lossTrades (reportMeta r) =
        getVal (querySelectorAll [str ''td''] doc) (str ''Loss Trades (% of total):'') \<and>
      largestProfit (reportMeta r) =
        getVal (querySelectorAll [str ''td''] doc) (str ''Largest profit trade:'') \<and>
      largestLoss (reportMeta r) =
        getVal (querySelectorAll [str ''td''] doc) (str ''Largest loss trade:'') \<and>
      avgProfit (reportMeta r) =
        getVal (querySelectorAll [str ''td''] doc) (str ''Average profit trade:'') \<and>
      avgLoss (reportMeta r) =
        getVal (querySelectorAll [str ''td''] doc) (str ''Average loss trade:'') \<and>
      maxConsecWinsDollar (reportMeta r) =
        getVal (querySelectorAll [str ''td''] doc) (str ''Maximum consecutive wins ($):'') \<and>
      maxConsecLossesDollar (reportMeta r) =
        getVal (querySelectorAll [str ''td''] doc) (str ''Maximum consecutive losses ($):'') \<and>
      maxConsecProfitCount (reportMeta r) =
        getVal (querySelectorAll [str ''td''] doc) (str ''Maximal consecutive profit (count):'') \<and>
      maxConsecLossCount (reportMeta r) =
        getVal (querySelectorAll [str ''td''] doc) (str ''Maximal consecutive loss (count):'') \<and>
      avgConsecWins (reportMeta r) =
        getVal (querySelectorAll [str ''td''] doc) (str ''Average consecutive wins:'') \<and>
      avgConsecLosses (reportMeta r) =
        getVal (querySelectorAll [str ''td''] doc) (str ''Average consecutive losses:'') \<and>
      period (reportMeta r) = getVal (querySelectorAll [str ''td''] doc) (str ''Period:''))"
proof -
  have m: "processData E doc = Inr r \<Longrightarrow>
      reportMeta r = (scrape_meta (querySelectorAll [str ''td''] doc))
                       \<lparr>fixedLotSize := fixed_lot (data r)\<rparr>"
    by (rule processData_meta)
  show ?thesis
    using getVal_absent [of cells label] getVal_present [of i cells label] m
    by (simp add: scrape_meta_def)
qed

lemma js_eq_notNaN: "x \<noteq> NaN \<Longrightarrow> y \<noteq> NaN \<Longrightarrow> js_eq x y \<longleftrightarrow> x = y"
  by (cases x; cases y) auto

lemma js_gt_notNaN: "js_gt x y \<Longrightarrow> x \<noteq> NaN"
  by (cases x; cases y) (auto simp: js_gt_def)

lemma fixed_lot_same:
  assumes "filter (\<lambda>d. js_gt (volume d) (Fin 0)) ds = t # rest"
    and "\<forall>d\<in>set rest. volume d = volume t"
  shows "fixed_lot ds = Some (volume t)"
proof -
  have "t \<in> set (filter (\<lambda>d. js_gt (volume d) (Fin 0)) ds)"
    by (simp add: assms(1))
  then have "volume t \<noteq> NaN"
    by (auto dest: js_gt_notNaN)
  then have "list_all (\<lambda>d. js_eq (volume d) (volume t)) (t # rest)"
    using assms(2) by (auto simp: list_all_iff js_eq_notNaN)
  then show ?thesis
    by (simp add: fixed_lot_def assms(1))
qed

lemma fixed_lot_differ:
  assumes "a \<in> set ds" "b \<in> set ds" "js_gt (volume a) (Fin 0)" "js_gt (volume b) (Fin 0)"
    and "volume a \<noteq> volume b"
  shows "fixed_lot ds = None"
proof (cases "filter (\<lambda>d. js_gt (volume d) (Fin 0)) ds")
  case Nil
  then show ?thesis by (simp add: fixed_lot_def)
next
  case (Cons t rest)
  from assms have "a \<in> set (t # rest)" "b \<in> set (t # rest)"
    by (simp_all flip: Cons)
  with assms(5) have "\<exists>d\<in>set (t # rest). volume d \<noteq> volume t"
    by metis
  then obtain d where d: "d \<in> set (t # rest)" "volume d \<noteq> volume t" by blast
  then have "\<not> js_eq (volume d) (volume t)"
    by (cases "volume d"; cases "volume t") auto
  with d(1) have "\<not> list_all (\<lambda>d. js_eq (volume d) (volume t)) (t # rest)"
    unfolding list_all_iff by blast
  then show ?thesis
    unfolding fixed_lot_def Cons by (simp only: list.case if_False)
qed

lemma fixed_lot_no_trades:
  "filter (\<lambda>d. js_gt (volume d) (Fin 0)) ds = [] \<Longrightarrow> fixed_lot ds = None"
  by (simp add: fixed_lot_def)

lemma processData_fixedLotSize:
  "processData E doc = Inr r \<Longrightarrow> fixedLotSize (reportMeta r) = fixed_lot (data r)"
  by (simp add: processData_meta)

text \<open>
  C4. In every result of \<open>processData\<close>: when the events of volume greater than 0 are
  \<open>t\<close> followed by events of the same volume as \<open>t\<close>, \<open>fixedLotSize\<close> is that volume;
  when two events of volume greater than 0 differ in volume, \<open>fixedLotSize\<close> is unset; it
  is unset as well when no event has a volume greater than 0.
\<close>

theorem C4_fixedLotSize:
  assumes "processData E doc = Inr r"
  shows "(filter (\<lambda>d. js_gt (volume d) (Fin 0)) (data r) = t # rest \<and>
          (\<forall>d\<in>set rest. volume d = volume t) \<longrightarrow>
            fixedLotSize (reportMeta r) = Some (volume t)) \<and>
         (a \<in> set (data r) \<and> b \<in> set (data r) \<and> js_gt (volume a) (Fin 0) \<and>
          js_gt (volume b) (Fin 0) \<and> volume a \<noteq> volume b \<longrightarrow>
            fixedLotSize (reportMeta r) = None) \<and>
         (filter (\<lambda>d. js_gt (volume d) (Fin 0)) (data r) = [] \<longrightarrow>
            fixedLotSize (reportMeta r) = None)"
  using processData_fixedLotSize [OF assms] fixed_lot_same [of "data r" t rest]
    fixed_lot_differ [of a "data r" b] fixed_lot_no_trades [of "data r"]
  by auto


lemma js_le_Fin [simp]: "js_le (Fin x) (Fin y) \<longleftrightarrow> x \<le> y"
  by (auto simp: js_le_def)

lemma insert_deal_set: "set (insert_deal a bs) = insert a (set bs)"
  by (induction bs) auto

lemma insert_deal_sorted:
  assumes "isFinite (date a)" "\<forall>b\<in>set bs. isFinite (date b)"
    and "sorted_wrt (\<lambda>p q. js_le (date p) (date q)) bs"
  shows "sorted_wrt (\<lambda>p q. js_le (date p) (date q)) (insert_deal a bs)"
  using assms
proof (induction bs)
  case Nil
  then show ?case by simp
next
  case (Cons b bs)
  from Cons.prems obtain x y where x: "date a = Fin x" and y: "date b = Fin y"
    by (cases "date a"; cases "date b") auto
  have fin: "\<exists>z. date c = Fin z" if "c \<in> set bs" for c
    using Cons.prems(2) that by (cases "date c") auto
  show ?case
  proof (cases "y < x")
    case True
    then have i: "insert_deal a (b # bs) = b # insert_deal a bs"
      by (simp add: x y js_gt_def js_sub_def)
    have "sorted_wrt (\<lambda>p q. js_le (date p) (date q)) (insert_deal a bs)"
      using Cons by simp
    moreover have "\<forall>c\<in>set (insert_deal a bs). js_le (date b) (date c)"
      using Cons.prems(3) True by (auto simp: insert_deal_set x y)
    ultimately show ?thesis unfolding i by simp
  next
    case False
    then have i: "insert_deal a (b # bs) = a # b # bs"
      by (simp add: x y js_gt_def js_sub_def)
    have "js_le (date a) (date c)" if "c \<in> set bs" for c
    proof -
      from fin [OF that] obtain z where z: "date c = Fin z" by blast
      from Cons.prems(3) that have "js_le (date b) (date c)" by simp
      with False show ?thesis by (simp add: x y z)
    qed
    with False Cons.prems(3) show ?thesis unfolding i by (simp add: x y)
  qed
qed

lemma sort_deals_set: "set (sort_deals ds) = set ds"
  by (induction ds) (simp_all add: sort_deals_def insert_deal_set)

lemma sort_deals_sorted:
  "\<forall>d\<in>set ds. isFinite (date d) \<Longrightarrow> sorted_wrt (\<lambda>p q. js_le (date p) (date q)) (sort_deals ds)"
proof (induction ds)
  case Nil
  then show ?case by (simp add: sort_deals_def)
next
  case (Cons d ds)
  have "sort_deals (d # ds) = insert_deal d (sort_deals ds)"
    by (simp add: sort_deals_def)
  with Cons show ?case
    by (simp add: insert_deal_sorted sort_deals_set)
qed

text \<open>
  C7, amended. In every result of \<open>processData\<close> in which the time text of every event
  parsed to a valid date (a finite time value), the events are sorted in ascending order of
  their time value: every event is \<open>\<le>\<close> every later one, so
  \<open>events[i].timestamp <= events[i+1].timestamp\<close> for all adjacent pairs. This holds for
  every date parser and every \<open>toLowerCase\<close>.
\<close>

theorem C7_sorted:
  assumes "processData E doc = Inr r"
    and "\<forall>d\<in>set (data r). isFinite (date d)"
  shows "sorted_wrt (\<lambda>p q. js_le (date p) (date q)) (data r) \<and>
         (\<forall>i. Suc i < length (data r) \<longrightarrow> js_le (date (data r ! i)) (date (data r ! Suc i)))"
proof -
  from processData_Inr(2) [OF assms(1)] obtain deals where
    d: "data r = (if deals \<noteq> [] then sort_deals deals else [])" by blast
  have s: "sorted_wrt (\<lambda>p q. js_le (date p) (date q)) (data r)"
  proof (cases "deals = []")
    case True
    with d show ?thesis by simp
  next
    case False
    with d have e: "data r = sort_deals deals" by simp
    with assms(2) have "\<forall>x\<in>set deals. isFinite (date x)"
      by (simp add: sort_deals_set)
    then show ?thesis
      unfolding e by (rule sort_deals_sorted)
  qed
  then show ?thesis
    by (auto simp: sorted_wrt_iff_nth_less)
qed


lemma processData_error:
  "collect_deals E (detect_columns E (querySelectorAll [str ''tr''] doc))
     (querySelectorAll [str ''tr''] doc) = Inl e \<Longrightarrow> processData E doc = Inl e"
  by (simp add: processData_def Let_def)

lemma processData_result:
  "collect_deals E (detect_columns E (querySelectorAll [str ''tr''] doc))
     (querySelectorAll [str ''tr''] doc) = Inr deals \<Longrightarrow>
   \<exists>r. processData E doc = Inr r \<and> data r = (if deals \<noteq> [] then sort_deals deals else [])"
  by (simp add: processData_def Let_def)

lemma row_event_short:
  assumes "length (querySelectorAll [str ''td''] row)
     \<le> max (max (max (volIdx cols) (profitIdx cols)) (balIdx cols)) (typeIdx cols)"
  shows "row_event E cols row = Inr None"
proof -
  from assms have "\<not> max (max (max (volIdx cols) (profitIdx cols)) (balIdx cols)) (typeIdx cols)
      < length (querySelectorAll [str ''td''] row)"
    by (simp only: not_less)
  then show ?thesis
    unfolding row_event_def Let_def
    by (rule if_not_P)
qed

lemma deals_no_swap_cell:
  "collect_deals platform (detect_columns platform (querySelectorAll [str ''tr''] doc_no_swap_cell))
     (querySelectorAll [str ''tr''] doc_no_swap_cell) = Inl TypeError"
  by code_simp

lemma deals_no_time_cell:
  "collect_deals platform (detect_columns platform (querySelectorAll [str ''tr''] doc_no_time_cell))
     (querySelectorAll [str ''tr''] doc_no_time_cell) = Inl TypeError"
  by code_simp

text \<open>
  C2. The code does not do what the claim says. The row guard checks the number of cells
  against the volume, profit, balance and type indices, but the cells at the time, swap
  and commission indices are read as well. In \<open>doc_no_swap_cell\<close> the header puts the swap
  column at index 5 and a ledger row with a valid time has 5 cells; in
  \<open>doc_no_time_cell\<close> the header puts the time column at index 4 and a row has 4 cells.
  Both rows pass the guard, and reading the missing cell raises a TypeError that ends
  \<open>processData\<close>: the row is not skipped. (A row with too few cells for the four guarded
  indices is skipped: \<open>row_event_short\<close>.)
\<close>

theorem C2_short_row_TypeError:
  "processData platform doc_no_swap_cell = Inl TypeError \<and>
   processData platform doc_no_time_cell = Inl TypeError"
  using processData_error [OF deals_no_swap_cell] processData_error [OF deals_no_time_cell]
  by simp

lemma deals_scenario_A:
  "collect_deals platform (detect_columns platform (querySelectorAll [str ''tr''] doc_scenario_A))
     (querySelectorAll [str ''tr''] doc_scenario_A) =
   Inr [plain_event (str ''2024.01.03'') 1704240000000 (1 / 10) (- 50) 10050,
        plain_event (str ''2024.01.02'') 1704153600000 (1 / 10) 100 10100,
        plain_event (str ''2024.01.04'') 1704326400000 (1 / 10) 450 10500]"
  by code_simp

lemma sort_scenario_A:
  "sort_deals [plain_event (str ''2024.01.03'') 1704240000000 (1 / 10) (- 50) 10050,
        plain_event (str ''2024.01.02'') 1704153600000 (1 / 10) 100 10100,
        plain_event (str ''2024.01.04'') 1704326400000 (1 / 10) 450 10500] = scenario_A"
  by code_simp

lemma result_scenario_A:
  "\<exists>r. processData platform doc_scenario_A = Inr r \<and> data r = scenario_A"
  using processData_result [OF deals_scenario_A] by (simp add: sort_scenario_A)

lemma deals_mixed_lots:
  "collect_deals platform (detect_columns platform (querySelectorAll [str ''tr''] doc_mixed_lots))
     (querySelectorAll [str ''tr''] doc_mixed_lots) = Inr mixed_lots"
  by code_simp

lemma sort_mixed_lots: "sort_deals mixed_lots = mixed_lots"
  by code_simp

lemma result_mixed_lots:
  "\<exists>r. processData platform doc_mixed_lots = Inr r \<and> data r = mixed_lots"
proof -
  have "mixed_lots \<noteq> []" by (simp add: mixed_lots_def)
  with processData_result [OF deals_mixed_lots] show ?thesis
    by (simp add: sort_mixed_lots)
qed

theorem C4_fixedLotSize_witness:
  "map_sum id (\<lambda>r. fixedLotSize (reportMeta r)) (processData platform doc_scenario_A) =
     Inr (Some (Fin (1 / 10))) \<and>
   map_sum id (\<lambda>r. fixedLotSize (reportMeta r)) (processData platform doc_mixed_lots) = Inr None"
proof -
  from result_scenario_A obtain r where
    r: "processData platform doc_scenario_A = Inr r" "data r = scenario_A" by blast
  have f: "filter (\<lambda>d. js_gt (volume d) (Fin 0)) (data r) = hd scenario_A # tl scenario_A"
    by (simp add: r(2) scenario_A_def plain_event_def js_gt_def)
  have v: "\<forall>d\<in>set (tl scenario_A). volume d = volume (hd scenario_A)"
    by (simp add: scenario_A_def plain_event_def)
  from C4_fixedLotSize [OF r(1), of "hd scenario_A" "tl scenario_A"] f v
  have "fixedLotSize (reportMeta r) = Some (volume (hd scenario_A))"
    by blast
  then have a: "fixedLotSize (reportMeta r) = Some (Fin (1 / 10))"
    by (simp add: scenario_A_def plain_event_def)
  from result_mixed_lots obtain q where
    q: "processData platform doc_mixed_lots = Inr q" "data q = mixed_lots" by blast
  have m: "mixed_lots ! 0 \<in> set (data q)" "mixed_lots ! 1 \<in> set (data q)"
    "js_gt (volume (mixed_lots ! 0)) (Fin 0)" "js_gt (volume (mixed_lots ! 1)) (Fin 0)"
    "volume (mixed_lots ! 0) \<noteq> volume (mixed_lots ! 1)"
    by (simp_all add: q(2) mixed_lots_def plain_event_def js_gt_def)
  from C4_fixedLotSize [OF q(1), of _ _ "mixed_lots ! 0" "mixed_lots ! 1"] m
  have b: "fixedLotSize (reportMeta q) = None"
    by blast
  from a b show ?thesis by (simp add: r(1) q(1))
qed

theorem C7_sorted_witness:
  "map_sum id (\<lambda>r. map date (data r)) (processData platform doc_scenario_A) =
     Inr [Fin 1704153600000, Fin 1704240000000, Fin 1704326400000] \<and>
   (\<exists>r. processData platform doc_scenario_A = Inr r \<and>
        sorted_wrt (\<lambda>p q. js_le (date p) (date q)) (data r))"
proof -
  from result_scenario_A obtain r where
    r: "processData platform doc_scenario_A = Inr r" "data r = scenario_A" by blast
  have f: "\<forall>d\<in>set (data r). isFinite (date d)"
    by (simp add: r(2) scenario_A_def plain_event_def)
  from C7_sorted [OF r(1) f] have s: "sorted_wrt (\<lambda>p q. js_le (date p) (date q)) (data r)"
    by blast
  have "map date (data r) = [Fin 1704153600000, Fin 1704240000000, Fin 1704326400000]"
    by (simp add: r(2) scenario_A_def plain_event_def)
  with r(1) s show ?thesis by auto
qed

lemma deals_bad_date:
  "collect_deals platform (detect_columns platform (querySelectorAll [str ''tr''] doc_bad_date))
     (querySelectorAll [str ''tr''] doc_bad_date) = Inr bad_date_deals"
  by code_simp

lemma sort_bad_date: "sort_deals bad_date_deals = bad_date_deals"
  by code_simp

text \<open>
  C7, as the spec states it for every input, fails when a row passes the time pattern but
  its text is not a date: \<open>2024.13.45\<close> matches \<open>^\d{4}\.\d{2}\.\d{2}\<close>, and
  \<open>new Date('2024-13-45')\<close> is an invalid date, whose time value is NaN. The comparator
  then returns NaN, and whatever order the sort leaves, an adjacent pair contains NaN, for
  which \<open><=\<close> is false in both directions.
\<close>

theorem C7_invalid_date_counterexample:
  "map_sum id (map date \<circ> data) (processData platform doc_bad_date) =
     Inr [NaN, Fin 1704067200000] \<and>
   \<not> js_le NaN (Fin 1704067200000) \<and> \<not> js_le (Fin 1704067200000) NaN"
proof -
  have "bad_date_deals \<noteq> []" by (simp add: bad_date_deals_def)
  with processData_result [OF deals_bad_date] obtain r where
    r: "processData platform doc_bad_date = Inr r" "data r = bad_date_deals"
    by (auto simp: sort_bad_date)
  have "map date (data r) = [NaN, Fin 1704067200000]"
    by (simp add: r(2) bad_date_deals_def plain_event_def)
  with r(1) show ?thesis by (simp add: js_le_def)
qed


lemma cells_scenario_A:
  "querySelectorAll [str ''td''] doc_scenario_A =
     map td [''Total Net Profit:'', ''500.00'', ''Initial Deposit:'', ''10000'',
             ''Time'', ''Type'', ''Volume'', ''Profit'', ''Balance'',
             ''2024.01.03'', ''buy'', ''0.10'', ''-50.00'', ''10050.00'',
             ''2024.01.02'', ''buy'', ''0.10'', ''100.00'', ''10100.00'',
             ''2024.01.04'', ''buy'', ''0.10'', ''450.00'', ''10500.00'']"
  by code_simp

theorem C9_getVal_witness:
  "getVal (querySelectorAll [str ''td''] doc_scenario_A) (str ''Total Net Profit:'') =
     Some (str ''500.00'') \<and>
   getVal (querySelectorAll [str ''td''] doc_scenario_A) (str ''Sharpe Ratio:'') =
     Some (str ''0'') \<and>
   map_sum id (\<lambda>r. totalNetProfit (reportMeta r)) (processData platform doc_scenario_A) =
     Inr (Some (str ''500.00''))"
proof -
  let ?cells = "querySelectorAll [str ''td''] doc_scenario_A"
  have h1: "0 < length ?cells"
    "startsWith (trim (textContent (?cells ! 0))) (str ''Total Net Profit:'')"
    "\<forall>j<0. \<not> startsWith (trim (textContent (?cells ! j))) (str ''Total Net Profit:'')"
    unfolding cells_scenario_A by code_simp+
  have n: "(if 0 + 1 < length ?cells then Some (trim (textContent (?cells ! (0 + 1)))) else None) =
      Some (str ''500.00'')"
    unfolding cells_scenario_A by code_simp
  from C9_getVal [of ?cells "str ''Total Net Profit:''" 0 platform doc_scenario_A] h1
  have "getVal ?cells (str ''Total Net Profit:'') =
      (if 0 + 1 < length ?cells then Some (trim (textContent (?cells ! (0 + 1)))) else None)"
    by blast
  then have g1: "getVal ?cells (str ''Total Net Profit:'') = Some (str ''500.00'')"
    by (simp only: n)
  have h2: "\<forall>c\<in>set ?cells. \<not> startsWith (trim (textContent c)) (str ''Sharpe Ratio:'')"
    unfolding cells_scenario_A by code_simp
  from C9_getVal [of ?cells "str ''Sharpe Ratio:''" 0 platform doc_scenario_A] h2
  have g2: "getVal ?cells (str ''Sharpe Ratio:'') = Some (str ''0'')"
    by blast
  from result_scenario_A obtain r where r: "processData platform doc_scenario_A = Inr r"
    by blast
  from C9_getVal [of ?cells "str ''Sharpe Ratio:''" 0 platform doc_scenario_A r] r
  have "totalNetProfit (reportMeta r) = getVal ?cells (str ''Total Net Profit:'')"
    by blast
  with g1 r have g3: "map_sum id (\<lambda>r. totalNetProfit (reportMeta r))
      (processData platform doc_scenario_A) = Inr (Some (str ''500.00''))"
    by simp
  from g1 g2 g3 show ?thesis by blast
qed

section \<open>Resimulation of the parsed events\<close>













end
